theory Spec2Isabelle
  imports Main "HOL-Library.Word"
begin

unbundle bit_operations_syntax

section \<open>Errors\<close>

text \<open>
  The \<open>Error\<close> struct of the http package (a Call Error): method, endpoint,
  status code and the raw response body.
\<close>

record http_Error =
  Method :: string
  Endpoint :: string
  StatusCode :: int
  Data :: string

text \<open>
  Go error values as they are built in the source: \<open>errors.New\<close>,
  \<open>errors.Wrap(err, msg)\<close>, \<open>fmt.Errorf\<close> with its \<open>%d\<close> argument, the
  \<open>Error\<close> struct, \<open>ssz.ErrSize\<close>, and errors that come from outside the
  repository (network, parsers), kept opaque.
\<close>

datatype go_error =
    errors_New string
  | errors_Wrap go_error string
  | fmt_Errorf string nat
  | CallError http_Error
  | ErrSize
  | External string

section \<open>Transport layer: data\<close>

text \<open>
  An \<open>io.Reader\<close> read to its end: the bytes it delivers and the error, if any,
  that ends the stream in place of EOF.
\<close>

datatype reader = Reader string "go_error option"

fun io_ReadAll :: "reader \<Rightarrow> go_error + string" where
  "io_ReadAll (Reader d None) = Inr d"
| "io_ReadAll (Reader d (Some e)) = Inl e"

definition bytes_NewReader :: "string \<Rightarrow> reader" where
  "bytes_NewReader d = Reader d None"

text \<open>\<open>http.Header\<close> is \<open>map[string][]string\<close>.\<close>

type_synonym header = "string \<rightharpoonup> string list"

record request =
  req_Method :: string
  req_URL :: string
  req_Header :: header
  req_Body :: "reader option"

record response =
  resp_StatusCode :: int
  resp_Header :: header
  resp_Body :: reader

text \<open>
  Modelled from the spec: the declarations of \<open>ContentType\<close> and
  \<open>spec.DataVersion\<close> are not among the sources at hand. The spec has both as
  enumerated tags; they are integers here, and 0 is the zero value, which a field has
  that was never assigned. Which tags the constants \<open>ContentTypeJSON\<close> and
  \<open>DataVersionUnknown\<close> are is left open: they are parameters (see \<open>env\<close>).
\<close>

type_synonym ContentType = int
type_synonym DataVersion = "64 word"

record httpResponse =
  statusCode :: int
  contentType :: ContentType
  consensusVersion :: DataVersion
  body :: string

text \<open>\<open>&httpResponse{statusCode: c}\<close>: every other field has its zero value
  (\<open>nil\<close> for the body slice, of length 0).\<close>

definition new_httpResponse :: "int \<Rightarrow> httpResponse" where
  "new_httpResponse c = \<lparr>statusCode = c, contentType = 0, consensusVersion = 0, body = []\<rparr>"

text \<open>\<open>responseMetadata\<close>: the struct the JSON body is decoded into.\<close>

record responseMetadata =
  Version :: DataVersion

text \<open>
  The top level of a JSON document as \<open>encoding/json\<close> sees it when it decodes
  into a struct: \<open>null\<close>, an object with its members in order (the decoded key and
  the raw text of the value), or any other value (array, string, number, boolean).
\<close>

datatype json_doc = JsonNull | JsonObject "(string \<times> string) list" | JsonOther

text \<open>
  What the functions of this package call and the repository's sources at hand do not
  define: the standard library (\<open>net/url\<close>, \<open>net/http\<close>, \<open>net/textproto\<close>,
  \<open>encoding/json\<close>, \<open>fmt\<close>) and, of this repository, \<open>ParseFromMediaType\<close>,
  the constant \<open>ContentTypeJSON\<close>, \<open>ContentType.String\<close>, the constant
  \<open>spec.DataVersionUnknown\<close> and \<open>DataVersion.UnmarshalJSON\<close>. They are
  parameters of the model.
  \<^item> \<open>url_Parse u\<close> is \<open>url.Parse(u)\<close> followed by \<open>String()\<close>;
  \<^item> \<open>http_NewRequest m u\<close> is the error of \<open>http.NewRequestWithContext\<close>;
  \<^item> \<open>DataVersion_UnmarshalJSON d input\<close> is the method on the receiver \<open>d\<close>: the
    receiver afterwards and the error;
  \<^item> \<open>json_scan b\<close> is the syntax check of \<open>json.Unmarshal\<close> and the top level
    of the document, or the syntax error;
  \<^item> \<open>Sprintf_q s\<close> is \<open>fmt.Sprintf("%q", s)\<close>.
\<close>

record env =
  url_Parse :: "string \<Rightarrow> go_error + string"
  http_NewRequest :: "string \<Rightarrow> string \<Rightarrow> go_error option"
  CanonicalMIMEHeaderKey :: "string \<Rightarrow> string"
  ParseFromMediaType :: "string \<Rightarrow> ContentType \<times> go_error option"
  ContentTypeJSON :: ContentType
  ContentType_String :: "ContentType \<Rightarrow> string"
  DataVersionUnknown :: DataVersion
  DataVersion_UnmarshalJSON :: "DataVersion \<Rightarrow> string \<Rightarrow> DataVersion \<times> go_error option"
  json_scan :: "string \<Rightarrow> go_error + json_doc"
  Sprintf_q :: "string \<Rightarrow> string"

text \<open>
  The \<open>Service\<close> of the http package: base URL, address, extra headers (a Go map,
  here in the order the \<open>range\<close> loop visits it), the HTTP client's \<open>Do\<close>, and
  the level of its zerolog logger (an event is emitted when its level is at least the
  logger's).
\<close>

record Service =
  base :: string
  address :: string
  extraHeaders :: "(string \<times> string) list"
  client_Do :: "request \<Rightarrow> go_error + response"
  log_level :: int

section \<open>Observability\<close>

text \<open>What a call emits besides its result: log entries (level and message) and
  the operations on the trace span.\<close>

datatype obs = LogEntry int string "(string \<times> string) list" | SpanOp string

definition TraceLevel :: int where "TraceLevel = -1"
definition DebugLevel :: int where "DebugLevel = 0"
definition WarnLevel :: int where "WarnLevel = 2"

definition Enabled :: "Service \<Rightarrow> int \<Rightarrow> bool" where
  "Enabled s lvl = (log_level s \<le> lvl)"

definition log_Msg :: "Service \<Rightarrow> int \<Rightarrow> string \<Rightarrow> (string \<times> string) list \<Rightarrow> obs list" where
  "log_Msg s lvl msg kvs = (if Enabled s lvl then [LogEntry lvl msg kvs] else [])"

section \<open>Transport layer: helpers\<close>

text \<open>Go's integer division truncates towards zero.\<close>

definition go_div :: "int \<Rightarrow> int \<Rightarrow> int" where
  "go_div a b = sgn a * sgn b * (\<bar>a\<bar> div \<bar>b\<bar>)"

definition statusFamily :: "int \<Rightarrow> int" where
  "statusFamily c = go_div c 100"

definition StatusNotFound :: int where "StatusNotFound = 404"
definition StatusNoContent :: int where "StatusNoContent = 204"

definition MethodGet :: string where "MethodGet = ''GET''"
definition MethodPost :: string where "MethodPost = ''POST''"

definition strings_TrimSuffix :: "string \<Rightarrow> string \<Rightarrow> string" where
  "strings_TrimSuffix s suffix =
     (if length suffix \<le> length s \<and> drop (length s - length suffix) s = suffix
      then take (length s - length suffix) s else s)"

text \<open>\<open>bytes.ReplaceAll(s, old, new)\<close> for a pattern \<open>old\<close> of one byte, which is
  how the source calls it.\<close>

definition bytes_ReplaceAll1 :: "string \<Rightarrow> char \<Rightarrow> string \<Rightarrow> string" where
  "bytes_ReplaceAll1 s old new = concat (map (\<lambda>c. if c = old then new else [c]) s)"

definition Header_Add :: "env \<Rightarrow> header \<Rightarrow> string \<Rightarrow> string \<Rightarrow> header" where
  "Header_Add E h k v =
     (let k' = CanonicalMIMEHeaderKey E k
      in h(k' \<mapsto> (case h k' of None \<Rightarrow> [v] | Some vs \<Rightarrow> vs @ [v])))"

definition Header_Set :: "env \<Rightarrow> header \<Rightarrow> string \<Rightarrow> string \<Rightarrow> header" where
  "Header_Set E h k v = h(CanonicalMIMEHeaderKey E k \<mapsto> [v])"

definition Header_Get :: "env \<Rightarrow> header \<Rightarrow> string \<Rightarrow> string" where
  "Header_Get E h k =
     (case h (CanonicalMIMEHeaderKey E k) of
        None \<Rightarrow> [] | Some [] \<Rightarrow> [] | Some (v # _) \<Rightarrow> v)"

definition addExtraHeaders :: "env \<Rightarrow> Service \<Rightarrow> request \<Rightarrow> request" where
  "addExtraHeaders E s req =
     req\<lparr>req_Header := foldl (\<lambda>h (k, v). Header_Add E h k v) (req_Header req) (extraHeaders s)\<rparr>"


section \<open>Transport layer: response envelope resolution\<close>

definition populateContentType :: "env \<Rightarrow> httpResponse \<Rightarrow> response \<Rightarrow> httpResponse \<times> go_error option" where
  "populateContentType E res resp =
     (case resp_Header resp ''Content-Type'' of
        None \<Rightarrow> (res, Some (errors_New ''no content type supplied in response''))
      | Some respContentTypes \<Rightarrow>
          if length respContentTypes \<noteq> 1
          then (res, Some (fmt_Errorf ''malformed content type (%d entries)'' (length respContentTypes)))
          else (case ParseFromMediaType E (hd respContentTypes) of
                  (ct, err) \<Rightarrow> (res\<lparr>contentType := ct\<rparr>, err)))"

text \<open>
  \<open>json.Unmarshal(data, &metadata)\<close> for the struct \<open>responseMetadata\<close>, whose
  one field has the key \<open>version\<close> and a type with its own \<open>UnmarshalJSON\<close>.
  A document that is not valid JSON is an error; \<open>null\<close> changes nothing; a value
  that is not an object is a type error; in an object each member whose key is
  \<open>version\<close>, compared without regard to the case of ASCII letters, is handed as raw
  text to \<open>DataVersion.UnmarshalJSON\<close>, whose error ends the decoding; other members
  are skipped. An object with no such member leaves the struct as it was.
\<close>

definition ascii_lower :: "char \<Rightarrow> char" where
  "ascii_lower c =
     (if (65::nat) \<le> of_char c \<and> of_char c \<le> (90::nat) then char_of (of_char c + (32::nat)) else c)"

definition equalFold :: "string \<Rightarrow> string \<Rightarrow> bool" where
  "equalFold a b = (map ascii_lower a = map ascii_lower b)"

fun decode_members :: "env \<Rightarrow> (string \<times> string) list \<Rightarrow> responseMetadata \<Rightarrow> responseMetadata \<times> go_error option" where
  "decode_members E [] m = (m, None)"
| "decode_members E ((k, raw) # kvs) m =
     (if equalFold k ''version''
      then (case DataVersion_UnmarshalJSON E (Version m) raw of
              (v, Some err) \<Rightarrow> (m\<lparr>Version := v\<rparr>, Some err)
            | (v, None) \<Rightarrow> decode_members E kvs (m\<lparr>Version := v\<rparr>))
      else decode_members E kvs m)"

definition json_Unmarshal :: "env \<Rightarrow> string \<Rightarrow> responseMetadata \<Rightarrow> responseMetadata \<times> go_error option" where
  "json_Unmarshal E data m =
     (case json_scan E data of
        Inl err \<Rightarrow> (m, Some err)
      | Inr JsonNull \<Rightarrow> (m, None)
      | Inr JsonOther \<Rightarrow> (m, Some (External ''json: cannot unmarshal into Go value of type http.responseMetadata''))
      | Inr (JsonObject kvs) \<Rightarrow> decode_members E kvs m)"

definition populateConsensusVersion :: "env \<Rightarrow> httpResponse \<Rightarrow> response \<Rightarrow> httpResponse \<times> go_error option" where
  "populateConsensusVersion E res0 resp =
     (let res = res0\<lparr>consensusVersion := DataVersionUnknown E\<rparr> in
      case resp_Header resp ''Eth-Consensus-Version'' of
        None \<Rightarrow>
          if contentType res \<noteq> ContentTypeJSON E
          then (res, Some (errors_New ''no consensus version header''))
          else (case json_Unmarshal E (body res) \<lparr>Version = 0\<rparr> of
                  (metadata, Some err) \<Rightarrow>
                    (res, Some (errors_Wrap err ''no consensus version header and failed to parse response''))
                | (metadata, None) \<Rightarrow> (res\<lparr>consensusVersion := Version metadata\<rparr>, None))
      | Some respConsensusVersions \<Rightarrow>
          if length respConsensusVersions \<noteq> 1
          then (res, Some (fmt_Errorf ''malformed consensus version (%d entries)'' (length respConsensusVersions)))
          else (case DataVersion_UnmarshalJSON E (consensusVersion res) (Sprintf_q E (hd respConsensusVersions)) of
                  (v, Some err) \<Rightarrow>
                    (res\<lparr>consensusVersion := v\<rparr>, Some (errors_Wrap err ''failed to parse consensus version''))
                | (v, None) \<Rightarrow> (res\<lparr>consensusVersion := v\<rparr>, None)))"

section \<open>Transport layer: get2\<close>

text \<open>
  \<open>get2\<close> in two phases. \<open>get2_exchange\<close> is the request: URL, request object,
  headers, \<open>s.client.Do\<close>; it ends in an error or in the response.
  \<open>get2_response\<close> is what \<open>get2\<close> makes of the response. Each returns what it
  emits on the span and the log beside its result.
\<close>

definition get2_exchange :: "env \<Rightarrow> Service \<Rightarrow> string \<Rightarrow> (go_error + response) \<times> obs list" where
  "get2_exchange E s endpoint =
     (let o0 = [SpanOp ''Start get2''] @ log_Msg s TraceLevel ''GET request'' [(''endpoint'', endpoint)] in
      case url_Parse E (strings_TrimSuffix (base s) ''/'' @ endpoint) of
        Inl err \<Rightarrow> (Inl (errors_Wrap err ''invalid endpoint''), o0)
      | Inr url \<Rightarrow>
          (case http_NewRequest E MethodGet url of
             Some err \<Rightarrow> (Inl (errors_Wrap err ''failed to create GET request''), o0)
           | None \<Rightarrow>
               (let req0 = addExtraHeaders E s
                      \<lparr>req_Method = MethodGet, req_URL = url, req_Header = Map.empty, req_Body = None\<rparr>;
                    req = req0\<lparr>req_Header := Header_Set E (req_Header req0) ''Accept''
                                   ''application/octet-stream;q=1,application/json;q=0.9''\<rparr>;
                    o1 = o0 @ [SpanOp ''AddEvent Sending request'']
                in case client_Do s req of
                     Inl err \<Rightarrow> (Inl (errors_Wrap err ''failed to call GET endpoint''),
                                 o1 @ [SpanOp ''RecordError Request failed''])
                   | Inr resp \<Rightarrow> (Inr resp, o1))))"

text \<open>Lines 258 to 262 of \<open>get2\<close>: any error of \<open>populateContentType\<close> is logged
  and the content type is taken to be JSON.\<close>

definition get2_contentType :: "env \<Rightarrow> Service \<Rightarrow> httpResponse \<Rightarrow> response \<Rightarrow> httpResponse \<times> obs list" where
  "get2_contentType E s res resp =
     (case populateContentType E res resp of
        (r, Some err) \<Rightarrow>
          (r\<lparr>contentType := ContentTypeJSON E\<rparr>,
           log_Msg s DebugLevel ''Failed to obtain content type; assuming JSON'' [])
      | (r, None) \<Rightarrow> (r, []))"

definition get2_response :: "env \<Rightarrow> Service \<Rightarrow> string \<Rightarrow> response \<Rightarrow> (go_error + httpResponse) \<times> obs list" where
  "get2_response E s endpoint resp =
     (let res = new_httpResponse (resp_StatusCode resp) in
      if resp_StatusCode resp = StatusNotFound
      then (Inr res, [SpanOp ''RecordError endpoint not found''] @ log_Msg s DebugLevel ''Endpoint not found'' [])
      else if resp_StatusCode resp = StatusNoContent
      then (Inr res, [SpanOp ''AddEvent Received empty response'']
                     @ log_Msg s TraceLevel ''Endpoint returned no content'' [])
      else (case io_ReadAll (resp_Body resp) of
              Inl err \<Rightarrow> (Inl (errors_Wrap err ''failed to read body''),
                          [SpanOp ''RecordError''] @ log_Msg s WarnLevel ''Failed to read body'' [])
            | Inr data \<Rightarrow>
                (let res1 = res\<lparr>body := data\<rparr> in
                 if statusFamily (resp_StatusCode resp) \<noteq> 2
                 then (let trimmedResponse =
                             bytes_ReplaceAll1 (bytes_ReplaceAll1 (body res1) (CHR 0x0a) []) (CHR 0x0d) []
                       in (Inl (CallError \<lparr>Method = MethodGet, Endpoint = endpoint,
                                           StatusCode = resp_StatusCode resp, Data = body res1\<rparr>),
                           [SpanOp ''SetStatus Error'']
                           @ log_Msg s DebugLevel ''GET failed'' [(''response'', trimmedResponse)]))
                 else (case get2_contentType E s res1 resp of
                         (res2, o1) \<Rightarrow>
                           (let o2 = o1 @ [SpanOp (''SetAttributes content-type ''
                                                   @ ContentType_String E (contentType res2))]
                            in case populateConsensusVersion E res2 resp of
                                 (r, Some err) \<Rightarrow>
                                   (Inl (errors_Wrap err ''failed to parse consensus version''), o2)
                               | (r, None) \<Rightarrow> (Inr r, o2))))))"

definition get2 :: "env \<Rightarrow> Service \<Rightarrow> string \<Rightarrow> (go_error + httpResponse) \<times> obs list" where
  "get2 E s endpoint =
     (case get2_exchange E s endpoint of
        (Inl err, o1) \<Rightarrow> (Inl err, o1 @ [SpanOp ''End''])
      | (Inr resp, o1) \<Rightarrow>
          (case get2_response E s endpoint resp of (r, o2) \<Rightarrow> (r, o1 @ o2 @ [SpanOp ''End''])))"


section \<open>Transport layer: get\<close>

definition get_exchange :: "env \<Rightarrow> Service \<Rightarrow> string \<Rightarrow> (go_error + response) \<times> obs list" where
  "get_exchange E s endpoint =
     (let o0 = log_Msg s TraceLevel ''GET request'' [(''endpoint'', endpoint)] in
      case url_Parse E (strings_TrimSuffix (base s) ''/'' @ endpoint) of
        Inl err \<Rightarrow> (Inl (errors_Wrap err ''invalid endpoint''), o0)
      | Inr url \<Rightarrow>
          (case http_NewRequest E MethodGet url of
             Some err \<Rightarrow> (Inl (errors_Wrap err ''failed to create GET request''), o0)
           | None \<Rightarrow>
               (let req0 = addExtraHeaders E s
                      \<lparr>req_Method = MethodGet, req_URL = url, req_Header = Map.empty, req_Body = None\<rparr>;
                    req = req0\<lparr>req_Header := Header_Set E (req_Header req0) ''Accept'' ''application/json''\<rparr>
                in case client_Do s req of
                     Inl err \<Rightarrow> (Inl (errors_Wrap err ''failed to call GET endpoint''), o0)
                   | Inr resp \<Rightarrow> (Inr resp, o0))))"

text \<open>The result of \<open>get\<close> is an \<open>io.Reader\<close>, \<open>nil\<close> (here \<open>None\<close>) on a 404.\<close>

definition get_response :: "Service \<Rightarrow> string \<Rightarrow> response \<Rightarrow> (go_error + reader option) \<times> obs list" where
  "get_response s endpoint resp =
     (if resp_StatusCode resp = StatusNotFound then (Inr None, [])
      else (case io_ReadAll (resp_Body resp) of
              Inl err \<Rightarrow> (Inl (errors_Wrap err ''failed to read GET response''), [])
            | Inr data \<Rightarrow>
                if statusFamily (resp_StatusCode resp) \<noteq> 2
                then (Inl (CallError \<lparr>Method = MethodGet, Endpoint = endpoint,
                                     StatusCode = resp_StatusCode resp, Data = data\<rparr>),
                      log_Msg s TraceLevel ''GET failed'' [(''data'', data)])
                else (Inr (Some (bytes_NewReader data)),
                      log_Msg s TraceLevel ''GET response'' [(''response'', data)])))"

definition get :: "env \<Rightarrow> Service \<Rightarrow> string \<Rightarrow> (go_error + reader option) \<times> obs list" where
  "get E s endpoint =
     (case get_exchange E s endpoint of
        (Inl err, o1) \<Rightarrow> (Inl err, o1)
      | (Inr resp, o1) \<Rightarrow> (case get_response s endpoint resp of (r, o2) \<Rightarrow> (r, o1 @ o2)))"

section \<open>Transport layer: post\<close>

definition post_exchange :: "env \<Rightarrow> Service \<Rightarrow> string \<Rightarrow> reader \<Rightarrow> go_error + response" where
  "post_exchange E s endpoint body' =
     (case url_Parse E (strings_TrimSuffix (base s) ''/'' @ endpoint) of
        Inl err \<Rightarrow> Inl (errors_Wrap err ''invalid endpoint'')
      | Inr url \<Rightarrow>
          (case http_NewRequest E MethodPost url of
             Some err \<Rightarrow> Inl (errors_Wrap err ''failed to create POST request'')
           | None \<Rightarrow>
               (let req0 = addExtraHeaders E s
                      \<lparr>req_Method = MethodPost, req_URL = url, req_Header = Map.empty, req_Body = Some body'\<rparr>;
                    req1 = req0\<lparr>req_Header := Header_Set E (req_Header req0) ''Content-Type'' ''application/json''\<rparr>;
                    req2 = req1\<lparr>req_Header := Header_Set E (req_Header req1) ''Accept'' ''application/json''\<rparr>;
                    req = (if Header_Get E (req_Header req2) ''User-Agent'' = []
                           then req2\<lparr>req_Header := Header_Set E (req_Header req2) ''User-Agent'' ''go-eth2-client/0.18.3''\<rparr>
                           else req2)
                in case client_Do s req of
                     Inl err \<Rightarrow> Inl (errors_Wrap err ''failed to call POST endpoint'')
                   | Inr resp \<Rightarrow> Inr resp)))"

definition post_response :: "Service \<Rightarrow> string \<Rightarrow> response \<Rightarrow> (go_error + reader) \<times> obs list" where
  "post_response s endpoint resp =
     (case io_ReadAll (resp_Body resp) of
        Inl err \<Rightarrow> (Inl (errors_Wrap err ''failed to read POST response''), [])
      | Inr data \<Rightarrow>
          if statusFamily (resp_StatusCode resp) \<noteq> 2
          then (Inl (CallError \<lparr>Method = MethodPost, Endpoint = endpoint,
                               StatusCode = resp_StatusCode resp, Data = data\<rparr>),
                log_Msg s TraceLevel ''POST failed'' [(''data'', data)])
          else (Inr (bytes_NewReader data), log_Msg s TraceLevel ''POST response'' [(''response'', data)]))"

text \<open>
  Lines 108 to 116 of \<open>post\<close>: when the trace level is enabled the request body is
  read in full for the log entry and replaced by a reader over the bytes read; a failure
  of that read ends the call.
\<close>

definition post_body :: "Service \<Rightarrow> reader \<Rightarrow> go_error + reader \<times> obs list" where
  "post_body s body0 =
     (if Enabled s TraceLevel
      then (case io_ReadAll body0 of
              Inl err \<Rightarrow> Inl (errors_New ''failed to read request body'')
            | Inr bodyBytes \<Rightarrow>
                Inr (bytes_NewReader bodyBytes, [LogEntry TraceLevel ''POST request'' [(''body'', bodyBytes)]]))
      else Inr (body0, []))"

definition post :: "env \<Rightarrow> Service \<Rightarrow> string \<Rightarrow> reader \<Rightarrow> (go_error + reader) \<times> obs list" where
  "post E s endpoint body0 =
     (case post_body s body0 of
        Inl err \<Rightarrow> (Inl err, [])
      | Inr (body1, o0) \<Rightarrow>
          (case post_exchange E s endpoint body1 of
             Inl err \<Rightarrow> (Inl err, o0)
           | Inr resp \<Rightarrow> (case post_response s endpoint resp of (r, o1) \<Rightarrow> (r, o0 @ o1))))"

section \<open>Multi-client orchestrator: BeaconState\<close>

text \<open>
  A Go call either returns or panics. An \<open>interface{}\<close> value is \<open>nil\<close>, or
  holds a \<open>*spec.VersionedBeaconState\<close> (itself possibly a nil pointer), or holds a
  value of another type.
\<close>

datatype 'a outcome = Panic | Return 'a

datatype 'st iface = Nil | BeaconStatePtr "'st option" | OtherValue

text \<open>
  \<open>doCall\<close> is not among the sources at hand: it is a parameter, given the call
  function and the error handler (\<open>nil\<close> here). \<open>provider client\<close> is the client's
  \<open>BeaconState\<close> method when the client is a \<open>BeaconStateProvider\<close>; the type
  assertion panics when it is not.
\<close>

definition BeaconState_call ::
  "('c \<Rightarrow> (string \<Rightarrow> go_error + 'st option) option) \<Rightarrow> string \<Rightarrow> 'c \<Rightarrow> (go_error + 'st iface) outcome" where
  "BeaconState_call provider stateID client =
     (case provider client of
        None \<Rightarrow> Panic
      | Some method \<Rightarrow>
          (case method stateID of
             Inl err \<Rightarrow> Return (Inl err)
           | Inr beaconState \<Rightarrow> Return (Inr (BeaconStatePtr beaconState))))"

definition BeaconState ::
  "(('c \<Rightarrow> (go_error + 'st iface) outcome) \<Rightarrow> 'h option \<Rightarrow> (go_error + 'st iface) outcome) \<Rightarrow>
   ('c \<Rightarrow> (string \<Rightarrow> go_error + 'st option) option) \<Rightarrow> string \<Rightarrow> (go_error + 'st option) outcome" where
  "BeaconState doCall provider stateID =
     (case doCall (BeaconState_call provider stateID) None of
        Panic \<Rightarrow> Panic
      | Return (Inl err) \<Rightarrow> Return (Inl err)
      | Return (Inr Nil) \<Rightarrow> Return (Inr None)
      | Return (Inr (BeaconStatePtr p)) \<Rightarrow> Return (Inr p)
      | Return (Inr OtherValue) \<Rightarrow> Panic)"

section \<open>BlindedBlobSidecar: SSZ\<close>

type_synonym byte = "8 word"

text \<open>
  The struct, with the fields and sizes that \<open>MarshalSSZTo\<close> and
  \<open>UnmarshalSSZ\<close> use, its arrays as lists: \<open>BlockRoot\<close>, \<open>BlockParentRoot\<close>
  and \<open>BlobRoot\<close> are \<open>[32]byte\<close>, \<open>KzgCommitment\<close> and \<open>KzgProof\<close> are
  \<open>[48]byte\<close>, the other fields are \<open>uint64\<close>. \<open>valid_BlindedBlobSidecar\<close>
  says that the lists have the lengths of the arrays.
\<close>

record BlindedBlobSidecar =
  BlockRoot :: "byte list"
  Index :: "64 word"
  Slot :: "64 word"
  BlockParentRoot :: "byte list"
  ProposerIndex :: "64 word"
  BlobRoot :: "byte list"
  KzgCommitment :: "byte list"
  KzgProof :: "byte list"

definition valid_BlindedBlobSidecar :: "BlindedBlobSidecar \<Rightarrow> bool" where
  "valid_BlindedBlobSidecar b =
     (length (BlockRoot b) = 32 \<and> length (BlockParentRoot b) = 32 \<and> length (BlobRoot b) = 32 \<and>
      length (KzgCommitment b) = 48 \<and> length (KzgProof b) = 48)"

text \<open>\<open>ssz.MarshalUint64\<close> appends the 8 bytes of \<open>v\<close>, least significant first;
  \<open>ssz.UnmarshallUint64\<close> reads them back from the first 8 bytes.\<close>

definition MarshalUint64 :: "byte list \<Rightarrow> 64 word \<Rightarrow> byte list" where
  "MarshalUint64 dst v =
     dst @ [ucast v, ucast (drop_bit 8 v), ucast (drop_bit 16 v), ucast (drop_bit 24 v),
            ucast (drop_bit 32 v), ucast (drop_bit 40 v), ucast (drop_bit 48 v), ucast (drop_bit 56 v)]"

definition UnmarshallUint64 :: "byte list \<Rightarrow> 64 word" where
  "UnmarshallUint64 src =
     (ucast (src ! 0) OR push_bit 8 (ucast (src ! 1)) OR push_bit 16 (ucast (src ! 2)) OR
      push_bit 24 (ucast (src ! 3)) OR push_bit 32 (ucast (src ! 4)) OR push_bit 40 (ucast (src ! 5)) OR
      push_bit 48 (ucast (src ! 6)) OR push_bit 56 (ucast (src ! 7)))"

text \<open>The slice expression \<open>buf[lo:hi]\<close> and the built-in \<open>copy(dst, src)\<close>, which
  copies as many elements as the shorter of the two holds.\<close>

definition go_slice :: "'a list \<Rightarrow> nat \<Rightarrow> nat \<Rightarrow> 'a list" where
  "go_slice buf lo hi = take (hi - lo) (drop lo buf)"

definition go_copy :: "'a list \<Rightarrow> 'a list \<Rightarrow> 'a list" where
  "go_copy dst src = take (min (length dst) (length src)) src @ drop (min (length dst) (length src)) dst"

definition MarshalSSZTo :: "BlindedBlobSidecar \<Rightarrow> byte list \<Rightarrow> go_error + byte list" where
  "MarshalSSZTo b buf =
     (let dst = buf;
          dst = dst @ BlockRoot b;
          dst = MarshalUint64 dst (Index b);
          dst = MarshalUint64 dst (Slot b);
          dst = dst @ BlockParentRoot b;
          dst = MarshalUint64 dst (ProposerIndex b);
          dst = dst @ BlobRoot b;
          dst = dst @ KzgCommitment b;
          dst = dst @ KzgProof b
      in Inr dst)"

text \<open>\<open>ssz.MarshalSSZ(b)\<close> marshals into an empty buffer of capacity \<open>SizeSSZ()\<close>.\<close>

definition SizeSSZ :: "BlindedBlobSidecar \<Rightarrow> nat" where
  "SizeSSZ b = 216"

definition MarshalSSZ :: "BlindedBlobSidecar \<Rightarrow> go_error + byte list" where
  "MarshalSSZ b = MarshalSSZTo b []"

text \<open>\<open>UnmarshalSSZ\<close> works on its receiver: the result is the receiver afterwards
  and the error.\<close>

definition UnmarshalSSZ :: "BlindedBlobSidecar \<Rightarrow> byte list \<Rightarrow> BlindedBlobSidecar \<times> go_error option" where
  "UnmarshalSSZ b buf =
     (if length buf \<noteq> 216 then (b, Some ErrSize)
      else (b\<lparr>BlockRoot := go_copy (BlockRoot b) (go_slice buf 0 32),
              Index := UnmarshallUint64 (go_slice buf 32 40),
              Slot := UnmarshallUint64 (go_slice buf 40 48),
              BlockParentRoot := go_copy (BlockParentRoot b) (go_slice buf 48 80),
              ProposerIndex := UnmarshallUint64 (go_slice buf 80 88),
              BlobRoot := go_copy (BlobRoot b) (go_slice buf 88 120),
              KzgCommitment := go_copy (KzgCommitment b) (go_slice buf 120 168),
              KzgProof := go_copy (KzgProof b) (go_slice buf 168 216)\<rparr>, None))"

section \<open>BlockContents: YAML\<close>

record ('blk, 'sc) BlockContents =
  Block :: "'blk option"
  BlobSidecars :: "'sc option list"

record ('blk, 'sc) blockContentsYAML =
  yaml_Block :: "'blk option"
  yaml_BlobSidecars :: "'sc option list"

text \<open>\<open>yaml.MarshalWithOptions(v, yaml.Flow(true))\<close> belongs to the YAML library: it
  is the parameter \<open>yaml_Marshal\<close>.\<close>

definition MarshalYAML ::
  "(('blk, 'sc) blockContentsYAML \<Rightarrow> go_error + string) \<Rightarrow> ('blk, 'sc) BlockContents \<Rightarrow> go_error + string" where
  "MarshalYAML yaml_Marshal b =
     (case yaml_Marshal \<lparr>yaml_Block = Block b, yaml_BlobSidecars = BlobSidecars b\<rparr> of
        Inl err \<Rightarrow> Inl err
      | Inr yamlBytes \<Rightarrow> Inr (bytes_ReplaceAll1 yamlBytes (CHR 0x22) [CHR 0x27]))"


section \<open>A sample environment\<close>

text \<open>
  For evaluating the model on concrete calls: the parameters on the few inputs the
  examples below use. \<open>quoted s\<close> is \<open>s\<close> between double quotes, which is what
  \<open>%q\<close> prints for a string of plain letters and digits.
\<close>

definition quoted :: "string \<Rightarrow> string" where
  "quoted s = CHR 0x22 # s @ [CHR 0x22]"

definition sample_ParseFromMediaType :: "string \<Rightarrow> ContentType \<times> go_error option" where
  "sample_ParseFromMediaType t =
     (if t = ''application/octet-stream'' then (1, None)
      else if t = ''application/json'' then (2, None)
      else (0, Some (errors_New ''unrecognised content type'')))"

definition sample_UnmarshalJSON :: "DataVersion \<Rightarrow> string \<Rightarrow> DataVersion \<times> go_error option" where
  "sample_UnmarshalJSON d input =
     (if input = quoted ''phase0'' then (1, None)
      else if input = quoted ''altair'' then (2, None)
      else if input = quoted ''bellatrix'' then (3, None)
      else if input = quoted ''capella'' then (4, None)
      else if input = quoted ''deneb'' then (5, None)
      else (d, Some (errors_New ''unrecognised data version'')))"

text \<open>Three JSON bodies: \<open>{"version":"deneb","data":{}}\<close>, \<open>{"data":{}}\<close> and
  \<open>{"version":"future"}\<close>.\<close>

definition body_versioned :: string where
  "body_versioned = ''{'' @ quoted ''version'' @ '':'' @ quoted ''deneb'' @ '','' @ quoted ''data'' @ '':{}}''"

definition body_unversioned :: string where
  "body_unversioned = ''{'' @ quoted ''data'' @ '':{}}''"

definition body_unknown_version :: string where
  "body_unknown_version = ''{'' @ quoted ''version'' @ '':'' @ quoted ''future'' @ ''}''"

definition sample_json_scan :: "string \<Rightarrow> go_error + json_doc" where
  "sample_json_scan b =
     (if b = body_versioned then Inr (JsonObject [(''version'', quoted ''deneb''), (''data'', ''{}'')])
      else if b = body_unversioned then Inr (JsonObject [(''data'', ''{}'')])
      else if b = body_unknown_version then Inr (JsonObject [(''version'', quoted ''future'')])
      else if b = ''null'' then Inr JsonNull
      else Inl (External ''invalid character''))"

definition sample_env :: env where
  "sample_env =
     \<lparr>url_Parse = Inr,
      http_NewRequest = (\<lambda>m u. None),
      CanonicalMIMEHeaderKey = (\<lambda>k. k),
      ParseFromMediaType = sample_ParseFromMediaType,
      ContentTypeJSON = 2,
      ContentType_String = (\<lambda>c. if c = 1 then ''application/octet-stream''
                                 else if c = 2 then ''application/json'' else ''unknown''),
      DataVersionUnknown = 0,
      DataVersion_UnmarshalJSON = sample_UnmarshalJSON,
      json_scan = sample_json_scan,
      Sprintf_q = quoted\<rparr>"

text \<open>A service whose client answers every request with \<open>resp\<close>, unless the request
  body cannot be read, which is the error of the call.\<close>

definition sample_Do :: "response \<Rightarrow> request \<Rightarrow> go_error + response" where
  "sample_Do resp req =
     (case req_Body req of
        Some (Reader d (Some e)) \<Rightarrow> Inl e
      | _ \<Rightarrow> Inr resp)"

definition sample_service :: "response \<Rightarrow> int \<Rightarrow> Service" where
  "sample_service resp lvl =
     \<lparr>base = ''http://localhost:5052/'', address = ''localhost:5052'', extraHeaders = [],
      client_Do = sample_Do resp, log_level = lvl\<rparr>"

definition sample_response :: "int \<Rightarrow> (string \<times> string list) list \<Rightarrow> string \<Rightarrow> response" where
  "sample_response c hs b = \<lparr>resp_StatusCode = c, resp_Header = map_of hs, resp_Body = Reader b None\<rparr>"


text \<open>A sidecar with distinct field values, and the zero value of the struct.\<close>

definition sample_sidecar :: BlindedBlobSidecar where
  "sample_sidecar =
     \<lparr>BlockRoot = replicate 32 1, Index = 3, Slot = 0x0102030405060708,
      BlockParentRoot = replicate 32 2, ProposerIndex = 7, BlobRoot = replicate 32 3,
      KzgCommitment = replicate 48 4, KzgProof = replicate 48 5\<rparr>"

definition zero_sidecar :: BlindedBlobSidecar where
  "zero_sidecar =
     \<lparr>BlockRoot = replicate 32 0, Index = 0, Slot = 0,
      BlockParentRoot = replicate 32 0, ProposerIndex = 0, BlobRoot = replicate 32 0,
      KzgCommitment = replicate 48 0, KzgProof = replicate 48 0\<rparr>"

text \<open>A dispatch over a list of clients that asks the first one only, and a YAML
  encoder that prints one quoted scalar.\<close>

definition sample_doCall ::
  "nat list \<Rightarrow> (nat \<Rightarrow> (go_error + string iface) outcome) \<Rightarrow> unit option \<Rightarrow> (go_error + string iface) outcome" where
  "sample_doCall clients call errHandler =
     (case clients of
        [] \<Rightarrow> Return (Inl (errors_New ''no clients to which to make call''))
      | client # _ \<Rightarrow> call client)"

definition sample_yaml_Marshal :: "(nat, nat) blockContentsYAML \<Rightarrow> go_error + string" where
  "sample_yaml_Marshal v = Inr (''{block: '' @ quoted ''0x01'' @ '', blob_sidecars: []}'')"

section \<open>SSZ: encoding and decoding are inverse\<close>

lemma bit_byte_at:
  "bit (push_bit k (ucast (ucast (drop_bit k v) :: 8 word)) :: 64 word) n
     = (k \<le> n \<and> n < k + 8 \<and> n < 64 \<and> bit (v :: 64 word) n)"
  by (auto simp: bit_push_bit_iff bit_ucast_iff bit_drop_bit_eq dest: bit_imp_le_length)

lemma bit_byte_0:
  "bit (ucast (ucast v :: 8 word) :: 64 word) n = (n < 8 \<and> bit (v :: 64 word) n)"
  using bit_byte_at [of 0 v n] by (auto dest: bit_imp_le_length)

lemma le_bytes_inverse:
  "(ucast (ucast v :: byte) OR push_bit 8 (ucast (ucast (drop_bit 8 v) :: byte)) OR
    push_bit 16 (ucast (ucast (drop_bit 16 v) :: byte)) OR push_bit 24 (ucast (ucast (drop_bit 24 v) :: byte)) OR
    push_bit 32 (ucast (ucast (drop_bit 32 v) :: byte)) OR push_bit 40 (ucast (ucast (drop_bit 40 v) :: byte)) OR
    push_bit 48 (ucast (ucast (drop_bit 48 v) :: byte)) OR push_bit 56 (ucast (ucast (drop_bit 56 v) :: byte)))
   = (v :: 64 word)"
  (is "?lhs = v")
proof (rule bit_word_eqI)
  fix n :: nat
  assume "n < LENGTH(64)"
  then have n: "n < 64" by simp
  show "bit ?lhs n = bit v n"
    unfolding bit_or_iff bit_byte_at bit_byte_0 using n by (cases "bit v n") (simp_all, arith)
qed

lemma UnmarshallUint64_MarshalUint64: "UnmarshallUint64 (MarshalUint64 [] v) = v"
  unfolding MarshalUint64_def UnmarshallUint64_def by (simp add: le_bytes_inverse)

lemma UnmarshallUint64_append: "UnmarshallUint64 (take 8 (MarshalUint64 [] v @ rest)) = v"
  unfolding MarshalUint64_def UnmarshallUint64_def by (simp add: le_bytes_inverse)

lemma MarshalUint64_append: "MarshalUint64 dst v = dst @ MarshalUint64 [] v"
  by (simp add: MarshalUint64_def)

lemma length_MarshalUint64: "length (MarshalUint64 [] v) = 8"
  by (simp add: MarshalUint64_def)

lemma go_copy_same_length: "length dst = length src \<Longrightarrow> go_copy dst src = src"
  by (simp add: go_copy_def)

lemma MarshalSSZ_layout:
  "MarshalSSZ v = Inr (BlockRoot v @ MarshalUint64 [] (Index v) @ MarshalUint64 [] (Slot v) @
     BlockParentRoot v @ MarshalUint64 [] (ProposerIndex v) @ BlobRoot v @ KzgCommitment v @ KzgProof v)"
  unfolding MarshalSSZ_def MarshalSSZTo_def Let_def
  by (simp add: MarshalUint64_append [of "_ @ _"] MarshalUint64_append [of "BlockRoot v"])

lemma UnmarshalSSZ_layout:
  assumes "length r1 = 32" "length r2 = 32" "length r3 = 32" "length k1 = 48" "length k2 = 48"
    and "valid_BlindedBlobSidecar b"
  shows "UnmarshalSSZ b (r1 @ MarshalUint64 [] i @ MarshalUint64 [] s @ r2 @ MarshalUint64 [] p @ r3 @ k1 @ k2)
    = (\<lparr>BlockRoot = r1, Index = i, Slot = s, BlockParentRoot = r2, ProposerIndex = p,
        BlobRoot = r3, KzgCommitment = k1, KzgProof = k2\<rparr>, None)"
  using assms unfolding UnmarshalSSZ_def valid_BlindedBlobSidecar_def go_slice_def
  by (cases b) (simp add: length_MarshalUint64 go_copy_same_length UnmarshallUint64_append
      UnmarshallUint64_MarshalUint64)

text \<open>
  Claim C7. For every sidecar \<open>v\<close> (its arrays of the lengths the struct gives them)
  and every receiver \<open>b\<close>, \<open>MarshalSSZ v\<close> succeeds with \<open>SizeSSZ\<close> = 216 bytes and
  \<open>UnmarshalSSZ\<close> of these bytes succeeds and leaves the receiver equal to \<open>v\<close>. For
  every buffer whose length is not 216, \<open>UnmarshalSSZ\<close> returns \<open>ssz.ErrSize\<close> and
  the receiver is what it was before the call.
\<close>

theorem UnmarshalSSZ_MarshalSSZ_roundtrip:
  "(valid_BlindedBlobSidecar v \<and> valid_BlindedBlobSidecar b \<longrightarrow>
      (\<exists>enc. MarshalSSZ v = Inr enc \<and> length enc = SizeSSZ v \<and> UnmarshalSSZ b enc = (v, None))) \<and>
   (length buf \<noteq> 216 \<longrightarrow> UnmarshalSSZ b buf = (b, Some ErrSize))"
proof (intro conjI impI)
  assume val: "valid_BlindedBlobSidecar v \<and> valid_BlindedBlobSidecar b"
  let ?enc = "BlockRoot v @ MarshalUint64 [] (Index v) @ MarshalUint64 [] (Slot v) @
     BlockParentRoot v @ MarshalUint64 [] (ProposerIndex v) @ BlobRoot v @ KzgCommitment v @ KzgProof v"
  from val have len: "length (BlockRoot v) = 32" "length (BlockParentRoot v) = 32"
    "length (BlobRoot v) = 32" "length (KzgCommitment v) = 48" "length (KzgProof v) = 48"
    by (simp_all add: valid_BlindedBlobSidecar_def)
  have "UnmarshalSSZ b ?enc = (v, None)"
    using UnmarshalSSZ_layout [OF len, of b "Index v" "Slot v" "ProposerIndex v"] val by simp
  moreover have "length ?enc = SizeSSZ v"
    by (simp add: len length_MarshalUint64 SizeSSZ_def)
  ultimately show "\<exists>enc. MarshalSSZ v = Inr enc \<and> length enc = SizeSSZ v \<and> UnmarshalSSZ b enc = (v, None)"
    using MarshalSSZ_layout [of v] by blast
next
  assume "length buf \<noteq> 216"
  then show "UnmarshalSSZ b buf = (b, Some ErrSize)"
    by (simp add: UnmarshalSSZ_def)
qed

theorem UnmarshalSSZ_MarshalSSZ_roundtrip_witness:
  "valid_BlindedBlobSidecar sample_sidecar \<and> valid_BlindedBlobSidecar zero_sidecar \<and>
   (\<exists>enc. MarshalSSZ sample_sidecar = Inr enc \<and> length enc = 216 \<and>
          UnmarshalSSZ zero_sidecar enc = (sample_sidecar, None)) \<and>
   length [1, 2, 3 :: byte] \<noteq> 216 \<and>
   UnmarshalSSZ zero_sidecar [1, 2, 3] = (zero_sidecar, Some ErrSize)"
  using UnmarshalSSZ_MarshalSSZ_roundtrip [of sample_sidecar zero_sidecar "[1, 2, 3]"]
  by (simp add: valid_BlindedBlobSidecar_def sample_sidecar_def zero_sidecar_def SizeSSZ_def)


section \<open>Transport layer: shared lemmas\<close>

lemmas sample_defs = sample_env_def sample_service_def sample_response_def sample_Do_def
  sample_ParseFromMediaType_def sample_UnmarshalJSON_def sample_json_scan_def quoted_def
  body_versioned_def body_unversioned_def body_unknown_version_def

lemmas transport_defs = get2_def get2_exchange_def get2_response_def get2_contentType_def
  populateContentType_def populateConsensusVersion_def json_Unmarshal_def
  get_def get_exchange_def get_response_def post_def post_body_def post_exchange_def post_response_def
  addExtraHeaders_def Header_Set_def Header_Get_def Header_Add_def strings_TrimSuffix_def
  log_Msg_def Enabled_def TraceLevel_def DebugLevel_def WarnLevel_def
  statusFamily_def go_div_def StatusNotFound_def StatusNoContent_def MethodGet_def MethodPost_def
  new_httpResponse_def bytes_NewReader_def bytes_ReplaceAll1_def equalFold_def ascii_lower_def

text \<open>The status family is 2 exactly for the codes 200 to 299.\<close>

lemma statusFamily_2_iff: "statusFamily c = 2 \<longleftrightarrow> 200 \<le> c \<and> c < 300"
proof (cases "0 \<le> c")
  case True
  then show ?thesis by (auto simp: statusFamily_def go_div_def sgn_if)
next
  case False
  then have "\<bar>c\<bar> div 100 \<ge> 0" by simp
  with False show ?thesis by (auto simp: statusFamily_def go_div_def sgn_if)
qed

lemma get2_via_response:
  "fst (get2_exchange E s endpoint) = Inr resp \<Longrightarrow>
   fst (get2 E s endpoint) = fst (get2_response E s endpoint resp)"
  by (cases "get2_exchange E s endpoint") (auto simp: get2_def split: prod.splits)

lemma populateContentType_keeps:
  "populateContentType E res resp = (r, e) \<Longrightarrow> statusCode r = statusCode res \<and> body r = body res"
  by (auto simp: populateContentType_def split: option.splits if_splits prod.splits)

lemma get2_contentType_keeps:
  "get2_contentType E s res resp = (r, ob) \<Longrightarrow> statusCode r = statusCode res \<and> body r = body res"
  by (auto simp: get2_contentType_def split: option.splits prod.splits dest: populateContentType_keeps)

lemma populateConsensusVersion_keeps:
  "populateConsensusVersion E res resp = (r, e) \<Longrightarrow>
   statusCode r = statusCode res \<and> body r = body res \<and> contentType r = contentType res"
  by (auto simp: populateConsensusVersion_def Let_def split: option.splits if_splits prod.splits)

lemma get2_response_2xx:
  assumes "resp_StatusCode resp \<noteq> 204" "statusFamily (resp_StatusCode resp) = 2"
    and "io_ReadAll (resp_Body resp) = Inr data"
  shows "fst (get2_response E s endpoint resp) =
     (case populateConsensusVersion E
             (fst (get2_contentType E s ((new_httpResponse (resp_StatusCode resp))\<lparr>body := data\<rparr>) resp)) resp of
        (r, Some err) \<Rightarrow> Inl (errors_Wrap err ''failed to parse consensus version'')
      | (r, None) \<Rightarrow> Inr r)"
proof -
  from assms(2) have "resp_StatusCode resp \<noteq> 404" by (auto simp: statusFamily_2_iff)
  with assms show ?thesis
    by (simp add: get2_response_def StatusNotFound_def StatusNoContent_def Let_def
        split: prod.splits option.splits)
qed

lemma sample_get2_exchange:
  "fst (get2_exchange sample_env (sample_service R l) endpoint) = Inr R"
  by (simp add: get2_exchange_def sample_env_def sample_service_def sample_Do_def addExtraHeaders_def
      Header_Set_def Let_def)

lemma sample_post_exchange:
  "post_exchange sample_env (sample_service R l) endpoint (Reader d None) = Inr R"
  by (simp add: post_exchange_def sample_env_def sample_service_def sample_Do_def addExtraHeaders_def
      Header_Set_def Header_Get_def Let_def)

section \<open>Transport layer: status classification of get2\<close>

text \<open>
  Claim C1, as the code has it. Let \<open>get2\<close> have sent its request and received the
  response \<open>resp\<close>. A status of 404 gives the envelope with that status, an empty body
  and no error; 204 likewise. For any other status the body is read first: if that
  read fails, the result is the wrapped read error. A status outside 200..299 whose
  body was read gives the Call Error with method GET, the endpoint, the status code and
  the body as read. A status in 200..299 (other than 204) whose body was read gives
  either an envelope with that status and that body, or the error of the version
  resolution wrapped as "failed to parse consensus version"; it is not always an
  envelope.
\<close>

theorem get2_status_classification:
  assumes "fst (get2_exchange E s endpoint) = Inr resp"
  shows "(resp_StatusCode resp = 404 \<longrightarrow>
            fst (get2 E s endpoint) =
              Inr \<lparr>statusCode = 404, contentType = 0, consensusVersion = 0, body = []\<rparr>) \<and>
         (resp_StatusCode resp = 204 \<longrightarrow>
            fst (get2 E s endpoint) =
              Inr \<lparr>statusCode = 204, contentType = 0, consensusVersion = 0, body = []\<rparr>) \<and>
         (resp_StatusCode resp \<noteq> 404 \<and> resp_StatusCode resp \<noteq> 204 \<and>
          io_ReadAll (resp_Body resp) = Inl rerr \<longrightarrow>
            fst (get2 E s endpoint) = Inl (errors_Wrap rerr ''failed to read body'')) \<and>
         (resp_StatusCode resp \<noteq> 404 \<and> statusFamily (resp_StatusCode resp) \<noteq> 2 \<and>
          io_ReadAll (resp_Body resp) = Inr data \<longrightarrow>
            fst (get2 E s endpoint) =
              Inl (CallError \<lparr>Method = ''GET'', Endpoint = endpoint,
                               StatusCode = resp_StatusCode resp, Data = data\<rparr>)) \<and>
         (resp_StatusCode resp \<noteq> 204 \<and> statusFamily (resp_StatusCode resp) = 2 \<and>
          io_ReadAll (resp_Body resp) = Inr data \<longrightarrow>
            (\<exists>res. fst (get2 E s endpoint) = Inr res \<and> statusCode res = resp_StatusCode resp \<and>
                   body res = data) \<or>
            (\<exists>err. fst (get2 E s endpoint) = Inl (errors_Wrap err ''failed to parse consensus version'')))"
proof (intro conjI impI)
  assume "resp_StatusCode resp = 404"
  then show "fst (get2 E s endpoint) = Inr \<lparr>statusCode = 404, contentType = 0, consensusVersion = 0, body = []\<rparr>"
    by (simp add: get2_via_response [OF assms] get2_response_def StatusNotFound_def new_httpResponse_def)
next
  assume "resp_StatusCode resp = 204"
  then show "fst (get2 E s endpoint) = Inr \<lparr>statusCode = 204, contentType = 0, consensusVersion = 0, body = []\<rparr>"
    by (simp add: get2_via_response [OF assms] get2_response_def StatusNotFound_def StatusNoContent_def
        new_httpResponse_def)
next
  assume "resp_StatusCode resp \<noteq> 404 \<and> resp_StatusCode resp \<noteq> 204 \<and>
          io_ReadAll (resp_Body resp) = Inl rerr"
  then show "fst (get2 E s endpoint) = Inl (errors_Wrap rerr ''failed to read body'')"
    by (simp add: get2_via_response [OF assms] get2_response_def StatusNotFound_def StatusNoContent_def)
next
  assume a: "resp_StatusCode resp \<noteq> 404 \<and> statusFamily (resp_StatusCode resp) \<noteq> 2 \<and>
          io_ReadAll (resp_Body resp) = Inr data"
  then have "resp_StatusCode resp \<noteq> 204" by (auto simp: statusFamily_2_iff)
  with a show "fst (get2 E s endpoint) =
              Inl (CallError \<lparr>Method = ''GET'', Endpoint = endpoint,
                               StatusCode = resp_StatusCode resp, Data = data\<rparr>)"
    by (simp add: get2_via_response [OF assms] get2_response_def StatusNotFound_def StatusNoContent_def
        new_httpResponse_def MethodGet_def Let_def)
next
  assume a: "resp_StatusCode resp \<noteq> 204 \<and> statusFamily (resp_StatusCode resp) = 2 \<and>
          io_ReadAll (resp_Body resp) = Inr data"
  let ?res1 = "(new_httpResponse (resp_StatusCode resp))\<lparr>body := data\<rparr>"
  obtain res2 ob where ct: "get2_contentType E s ?res1 resp = (res2, ob)"
    by (cases "get2_contentType E s ?res1 resp")
  obtain r e where cv: "populateConsensusVersion E res2 resp = (r, e)"
    by (cases "populateConsensusVersion E res2 resp")
  have keep: "statusCode r = resp_StatusCode resp \<and> body r = data"
    using get2_contentType_keeps [OF ct] populateConsensusVersion_keeps [OF cv]
    by (simp add: new_httpResponse_def)
  have "fst (get2 E s endpoint) =
      (case e of Some err \<Rightarrow> Inl (errors_Wrap err ''failed to parse consensus version'') | None \<Rightarrow> Inr r)"
    using a by (simp add: get2_via_response [OF assms] get2_response_2xx ct cv)
  with keep show "(\<exists>res. fst (get2 E s endpoint) = Inr res \<and> statusCode res = resp_StatusCode resp \<and>
                   body res = data) \<or>
            (\<exists>err. fst (get2 E s endpoint) = Inl (errors_Wrap err ''failed to parse consensus version''))"
    by (cases e) auto
qed

theorem get2_status_classification_witness:
  "fst (get2 sample_env (sample_service (sample_response 404 [] ''gone'') 1) ''/eth/v1/x'')
     = Inr \<lparr>statusCode = 404, contentType = 0, consensusVersion = 0, body = []\<rparr> \<and>
   fst (get2 sample_env (sample_service (sample_response 204 [] []) 1) ''/eth/v1/x'')
     = Inr \<lparr>statusCode = 204, contentType = 0, consensusVersion = 0, body = []\<rparr> \<and>
   fst (get2 sample_env
          (sample_service \<lparr>resp_StatusCode = 200, resp_Header = Map.empty,
                           resp_Body = Reader ''{'' (Some (External ''connection reset''))\<rparr> 1) ''/eth/v1/x'')
     = Inl (errors_Wrap (External ''connection reset'') ''failed to read body'') \<and>
   statusFamily 500 \<noteq> 2 \<and>
   fst (get2 sample_env (sample_service (sample_response 500 [] ''boom'') 1) ''/eth/v1/x'')
     = Inl (CallError \<lparr>Method = ''GET'', Endpoint = ''/eth/v1/x'', StatusCode = 500, Data = ''boom''\<rparr>) \<and>
   statusFamily 200 = 2 \<and>
   ((\<exists>res. fst (get2 sample_env (sample_service (sample_response 200 [] body_versioned) 1) ''/eth/v1/x'') = Inr res \<and>
          statusCode res = 200 \<and> body res = body_versioned) \<or>
    (\<exists>err. fst (get2 sample_env (sample_service (sample_response 200 [] body_versioned) 1) ''/eth/v1/x'')
            = Inl (errors_Wrap err ''failed to parse consensus version'')))"
  using get2_status_classification [OF sample_get2_exchange, of "sample_response 404 [] ''gone''" 1 "''/eth/v1/x''"]
    get2_status_classification [OF sample_get2_exchange, of "sample_response 204 [] []" 1 "''/eth/v1/x''"]
    get2_status_classification [OF sample_get2_exchange,
      of "\<lparr>resp_StatusCode = 200, resp_Header = Map.empty,
           resp_Body = Reader ''{'' (Some (External ''connection reset''))\<rparr>" 1 "''/eth/v1/x''"
         "External ''connection reset''"]
    get2_status_classification [OF sample_get2_exchange, of "sample_response 500 [] ''boom''" 1 "''/eth/v1/x''" _ "''boom''"]
    get2_status_classification [OF sample_get2_exchange, of "sample_response 200 [] body_versioned" 1 "''/eth/v1/x''" _ body_versioned]
  by (simp add: sample_response_def statusFamily_def go_div_def)

text \<open>
  Against claim C1 as stated ("2xx yields a success envelope"): a 200 response that
  declares \<open>application/octet-stream\<close> and carries no \<open>Eth-Consensus-Version\<close>
  header makes \<open>get2\<close> return an error and no envelope.
\<close>

theorem get2_2xx_error_counterexample:
  "fst (get2_exchange sample_env
          (sample_service (sample_response 200 [(''Content-Type'', [''application/octet-stream''])] ''ssz'') 1)
          ''/eth/v2/debug/beacon/states/head'')
     = Inr (sample_response 200 [(''Content-Type'', [''application/octet-stream''])] ''ssz'') \<and>
   statusFamily (resp_StatusCode (sample_response 200 [(''Content-Type'', [''application/octet-stream''])] ''ssz'')) = 2 \<and>
   fst (get2 sample_env
          (sample_service (sample_response 200 [(''Content-Type'', [''application/octet-stream''])] ''ssz'') 1)
          ''/eth/v2/debug/beacon/states/head'')
     = Inl (errors_Wrap (errors_New ''no consensus version header'') ''failed to parse consensus version'')"
  by (simp add: transport_defs sample_defs)



section \<open>Transport layer: content type resolution\<close>

lemma sample_response_sel:
  "resp_StatusCode (sample_response c hs b) = c"
  "resp_Header (sample_response c hs b) = map_of hs"
  "resp_Body (sample_response c hs b) = Reader b None"
  by (simp_all add: sample_response_def)

lemma sample_env_sel:
  "ContentTypeJSON sample_env = 2"
  "DataVersionUnknown sample_env = 0"
  "ParseFromMediaType sample_env = sample_ParseFromMediaType"
  "DataVersion_UnmarshalJSON sample_env = sample_UnmarshalJSON"
  "json_scan sample_env = sample_json_scan"
  "Sprintf_q sample_env = quoted"
  by (simp_all add: sample_env_def)

lemma get2_contentType_failed:
  assumes "snd (populateContentType E res resp) = Some perr"
  shows "fst (get2_contentType E s res resp) = res\<lparr>contentType := ContentTypeJSON E\<rparr>"
proof -
  obtain r where r: "populateContentType E res resp = (r, Some perr)"
    using assms by (cases "populateContentType E res resp") auto
  then have "r = res \<or> (\<exists>ct. r = res\<lparr>contentType := ct\<rparr>)"
    by (auto simp: populateContentType_def split: option.splits if_splits prod.splits)
  then have "r\<lparr>contentType := ContentTypeJSON E\<rparr> = res\<lparr>contentType := ContentTypeJSON E\<rparr>"
    by auto
  with r show ?thesis by (simp add: get2_contentType_def)
qed

text \<open>\<open>populateContentType\<close> returns an error exactly when the header is absent, has
  zero or several values, or has one value that \<open>ParseFromMediaType\<close> rejects.\<close>

lemma populateContentType_error_iff:
  "snd (populateContentType E res resp) \<noteq> None \<longleftrightarrow>
     (case resp_Header resp ''Content-Type'' of
        None \<Rightarrow> True
      | Some vs \<Rightarrow> length vs \<noteq> 1 \<or> snd (ParseFromMediaType E (hd vs)) \<noteq> None)"
  by (auto simp: populateContentType_def split: option.splits prod.splits)

text \<open>
  Claim C2, as the code has it. For a response with a status in 200..299 (other than
  204) whose body was read: when the \<open>Content-Type\<close> header is absent, or malformed
  (zero or several values), or holds one value that is not a known media type,
  \<open>get2\<close> takes the content type to be JSON and goes on; none of the three fails the
  call. The result is that of the version resolution on the envelope with content type
  JSON, and every envelope returned has content type JSON.
\<close>

theorem get2_content_type_defaults_to_JSON:
  assumes "fst (get2_exchange E s endpoint) = Inr resp"
    and "resp_StatusCode resp \<noteq> 204" and "statusFamily (resp_StatusCode resp) = 2"
    and "io_ReadAll (resp_Body resp) = Inr data"
    and "resp_Header resp ''Content-Type'' = None \<or>
         (\<exists>vs. resp_Header resp ''Content-Type'' = Some vs \<and> length vs \<noteq> 1) \<or>
         (\<exists>v err. resp_Header resp ''Content-Type'' = Some [v] \<and> snd (ParseFromMediaType E v) = Some err)"
  shows "fst (get2 E s endpoint) =
           (case populateConsensusVersion E
                   \<lparr>statusCode = resp_StatusCode resp, contentType = ContentTypeJSON E,
                    consensusVersion = 0, body = data\<rparr> resp of
              (r, Some err) \<Rightarrow> Inl (errors_Wrap err ''failed to parse consensus version'')
            | (r, None) \<Rightarrow> Inr r) \<and>
         (\<forall>r. fst (get2 E s endpoint) = Inr r \<longrightarrow> contentType r = ContentTypeJSON E)"
proof -
  let ?res1 = "(new_httpResponse (resp_StatusCode resp))\<lparr>body := data\<rparr>"
  let ?res2 = "\<lparr>statusCode = resp_StatusCode resp, contentType = ContentTypeJSON E,
                    consensusVersion = 0, body = data\<rparr>"
  from assms(5) have "snd (populateContentType E ?res1 resp) \<noteq> None"
    unfolding populateContentType_error_iff by (auto split: option.splits)
  then obtain perr where "snd (populateContentType E ?res1 resp) = Some perr" by auto
  then have "fst (get2_contentType E s ?res1 resp) = ?res1\<lparr>contentType := ContentTypeJSON E\<rparr>"
    by (rule get2_contentType_failed)
  then have ct: "fst (get2_contentType E s ?res1 resp) = ?res2"
    by (simp add: new_httpResponse_def)
  have eq: "fst (get2 E s endpoint) =
           (case populateConsensusVersion E ?res2 resp of
              (r, Some err) \<Rightarrow> Inl (errors_Wrap err ''failed to parse consensus version'')
            | (r, None) \<Rightarrow> Inr r)"
    using get2_response_2xx [OF assms(2,3,4), of E s endpoint] ct
    by (simp add: get2_via_response [OF assms(1)])
  have "\<forall>r. fst (get2 E s endpoint) = Inr r \<longrightarrow> contentType r = ContentTypeJSON E"
  proof (intro allI impI)
    fix r assume "fst (get2 E s endpoint) = Inr r"
    with eq have "populateConsensusVersion E ?res2 resp = (r, None)"
      by (auto split: prod.splits option.splits)
    from populateConsensusVersion_keeps [OF this] show "contentType r = ContentTypeJSON E" by simp
  qed
  with eq show ?thesis by blast
qed

theorem get2_content_type_defaults_to_JSON_witness:
  "statusFamily 200 = 2 \<and>
   resp_Header (sample_response 200 [(''Eth-Consensus-Version'', [''deneb''])] ''ssz'') ''Content-Type'' = None \<and>
   fst (get2 sample_env
          (sample_service (sample_response 200 [(''Eth-Consensus-Version'', [''deneb''])] ''ssz'') 1) ''/eth/v1/x'')
     = Inr \<lparr>statusCode = 200, contentType = 2, consensusVersion = 5, body = ''ssz''\<rparr> \<and>
   resp_Header (sample_response 200 [(''Content-Type'', []), (''Eth-Consensus-Version'', [''deneb''])] ''ssz'')
       ''Content-Type'' = Some [] \<and>
   fst (get2 sample_env
          (sample_service (sample_response 200 [(''Content-Type'', []), (''Eth-Consensus-Version'', [''deneb''])] ''ssz'') 1)
          ''/eth/v1/x'')
     = Inr \<lparr>statusCode = 200, contentType = 2, consensusVersion = 5, body = ''ssz''\<rparr> \<and>
   snd (ParseFromMediaType sample_env ''text/html'') = Some (errors_New ''unrecognised content type'') \<and>
   fst (get2 sample_env
          (sample_service (sample_response 200 [(''Content-Type'', [''text/html'']),
                                                (''Eth-Consensus-Version'', [''deneb''])] ''ssz'') 1)
          ''/eth/v1/x'')
     = Inr \<lparr>statusCode = 200, contentType = 2, consensusVersion = 5, body = ''ssz''\<rparr>"
proof -
  have sf: "statusFamily 200 = 2" by (simp add: statusFamily_def go_div_def)
  let ?R1 = "sample_response 200 [(''Eth-Consensus-Version'', [''deneb''])] ''ssz''"
  let ?R2 = "sample_response 200 [(''Content-Type'', []), (''Eth-Consensus-Version'', [''deneb''])] ''ssz''"
  let ?R3 = "sample_response 200 [(''Content-Type'', [''text/html'']), (''Eth-Consensus-Version'', [''deneb''])] ''ssz''"
  have h1: "resp_Header ?R1 ''Content-Type'' = None" by (simp add: sample_response_def)
  have h2: "resp_Header ?R2 ''Content-Type'' = Some []" by (simp add: sample_response_def)
  have p: "snd (ParseFromMediaType sample_env ''text/html'') = Some (errors_New ''unrecognised content type'')"
    by (simp add: sample_env_def sample_ParseFromMediaType_def)
  have cv: "populateConsensusVersion sample_env
              \<lparr>statusCode = 200, contentType = 2, consensusVersion = 0, body = ''ssz''\<rparr>
              (sample_response 200 hs ''ssz'')
            = (\<lparr>statusCode = 200, contentType = 2, consensusVersion = 5, body = ''ssz''\<rparr>, None)"
    if "map_of hs ''Eth-Consensus-Version'' = Some [''deneb'']" for hs
    using that by (simp add: populateConsensusVersion_def sample_defs)
  have g1: "fst (get2 sample_env (sample_service ?R1 1) ''/eth/v1/x'')
      = Inr \<lparr>statusCode = 200, contentType = 2, consensusVersion = 5, body = ''ssz''\<rparr>"
    using get2_content_type_defaults_to_JSON [OF sample_get2_exchange, of ?R1 "''ssz''" 1 "''/eth/v1/x''"] sf
    by (simp add: sample_response_sel sample_env_sel cv)
  have g2: "fst (get2 sample_env (sample_service ?R2 1) ''/eth/v1/x'')
      = Inr \<lparr>statusCode = 200, contentType = 2, consensusVersion = 5, body = ''ssz''\<rparr>"
    using get2_content_type_defaults_to_JSON [OF sample_get2_exchange, of ?R2 "''ssz''" 1 "''/eth/v1/x''"] sf
    by (simp add: sample_response_sel sample_env_sel cv)
  have g3: "fst (get2 sample_env (sample_service ?R3 1) ''/eth/v1/x'')
      = Inr \<lparr>statusCode = 200, contentType = 2, consensusVersion = 5, body = ''ssz''\<rparr>"
    using get2_content_type_defaults_to_JSON [OF sample_get2_exchange, of ?R3 "''ssz''" 1 "''/eth/v1/x''"] sf p
    by (simp add: sample_response_sel sample_env_sel cv)
  from sf h1 h2 p g1 g2 g3 show ?thesis by blast
qed

text \<open>
  Against claim C2 as stated ("a malformed Content-Type header is a hard decode error
  that fails the call"): for a 200 response with two \<open>Content-Type\<close> values,
  \<open>populateContentType\<close> reports the malformed header, and \<open>get2\<close> still returns
  an envelope, of content type JSON.
\<close>

theorem get2_malformed_content_type_counterexample:
  "snd (populateContentType sample_env (new_httpResponse 200)
          (sample_response 200 [(''Content-Type'', [''application/octet-stream'', ''application/json'']),
                                (''Eth-Consensus-Version'', [''deneb''])] ''ssz''))
     = Some (fmt_Errorf ''malformed content type (%d entries)'' 2) \<and>
   fst (get2 sample_env
          (sample_service
             (sample_response 200 [(''Content-Type'', [''application/octet-stream'', ''application/json'']),
                                   (''Eth-Consensus-Version'', [''deneb''])] ''ssz'') 1)
          ''/eth/v2/debug/beacon/states/head'')
     = Inr \<lparr>statusCode = 200, contentType = 2, consensusVersion = 5, body = ''ssz''\<rparr>"
  by (simp add: transport_defs sample_defs)



section \<open>Transport layer: protocol version from the JSON body\<close>

text \<open>Decoding an object looks only at the members whose key folds to \<open>version\<close>.\<close>

lemma decode_members_filter:
  "decode_members E kvs m = decode_members E (filter (\<lambda>kv. equalFold (fst kv) ''version'') kvs) m"
  by (induction E kvs m rule: decode_members.induct) (auto split: prod.splits option.splits)

lemma decode_members_none:
  "filter (\<lambda>kv. equalFold (fst kv) ''version'') kvs = [] \<Longrightarrow> decode_members E kvs m = (m, None)"
  using decode_members_filter [of E kvs m] by simp

lemma decode_members_single:
  assumes "filter (\<lambda>kv. equalFold (fst kv) ''version'') kvs = [(k, raw)]"
  shows "decode_members E kvs m =
     (m\<lparr>Version := fst (DataVersion_UnmarshalJSON E (Version m) raw)\<rparr>,
      snd (DataVersion_UnmarshalJSON E (Version m) raw))"
proof -
  have "(k, raw) \<in> set (filter (\<lambda>kv. equalFold (fst kv) ''version'') kvs)"
    using assms by simp
  then have "equalFold k ''version''" by simp
  then show ?thesis
    using decode_members_filter [of E kvs m] assms
    by (auto split: prod.splits option.splits)
qed

lemma get2_2xx_no_version_header:
  assumes "fst (get2_exchange E s endpoint) = Inr resp"
    and "resp_StatusCode resp \<noteq> 204" and "statusFamily (resp_StatusCode resp) = 2"
    and "io_ReadAll (resp_Body resp) = Inr data"
    and "resp_Header resp ''Eth-Consensus-Version'' = None"
  shows "fst (get2 E s endpoint) =
     (let res2 = fst (get2_contentType E s ((new_httpResponse (resp_StatusCode resp))\<lparr>body := data\<rparr>) resp) in
      if contentType res2 \<noteq> ContentTypeJSON E
      then Inl (errors_Wrap (errors_New ''no consensus version header'') ''failed to parse consensus version'')
      else (case json_Unmarshal E data \<lparr>Version = 0\<rparr> of
              (metadata, Some err) \<Rightarrow>
                Inl (errors_Wrap (errors_Wrap err ''no consensus version header and failed to parse response'')
                       ''failed to parse consensus version'')
            | (metadata, None) \<Rightarrow>
                Inr (res2\<lparr>consensusVersion := Version metadata\<rparr>)))"
proof -
  let ?res1 = "(new_httpResponse (resp_StatusCode resp))\<lparr>body := data\<rparr>"
  obtain res2 ob where ct: "get2_contentType E s ?res1 resp = (res2, ob)"
    by (cases "get2_contentType E s ?res1 resp")
  from get2_contentType_keeps [OF ct] have b: "body res2 = data" by simp
  show ?thesis
    using assms(5) b
    by (simp add: get2_via_response [OF assms(1)] get2_response_2xx [OF assms(2,3,4)] ct
        populateConsensusVersion_def Let_def split: prod.splits option.splits)
qed

lemma sample_get2_contentType_JSON:
  "map_of hs ''Content-Type'' = Some [''application/json''] \<Longrightarrow>
   contentType (fst (get2_contentType sample_env s res (sample_response c hs b))) = ContentTypeJSON sample_env"
  by (simp add: get2_contentType_def populateContentType_def sample_response_sel sample_env_sel
      sample_ParseFromMediaType_def)

lemma sample_get2_contentType_SSZ:
  "map_of hs ''Content-Type'' = Some [''application/octet-stream''] \<Longrightarrow>
   contentType (fst (get2_contentType sample_env s res (sample_response c hs b))) = 1"
  by (simp add: get2_contentType_def populateContentType_def sample_response_sel sample_env_sel
      sample_ParseFromMediaType_def)

text \<open>
  Claim C3, as the code has it. For a response with a status in 200..299 (other than
  204) whose body was read, with no \<open>Eth-Consensus-Version\<close> header and content type
  JSON: when the body is a JSON object with one \<open>version\<close> member, the envelope's
  version is what \<open>DataVersion.UnmarshalJSON\<close> makes of that member, and the call
  fails with a decode error when that method rejects it; when the body is not valid
  JSON, the call fails with a decode error; when the body is a JSON object with no
  \<open>version\<close> member, the call succeeds and the envelope's version is the zero value
  of the version type.
\<close>

theorem get2_version_from_JSON_body:
  assumes "fst (get2_exchange E s endpoint) = Inr resp"
    and "resp_StatusCode resp \<noteq> 204" and "statusFamily (resp_StatusCode resp) = 2"
    and "io_ReadAll (resp_Body resp) = Inr data"
    and "resp_Header resp ''Eth-Consensus-Version'' = None"
    and "contentType (fst (get2_contentType E s ((new_httpResponse (resp_StatusCode resp))\<lparr>body := data\<rparr>) resp))
           = ContentTypeJSON E"
  shows "(json_scan E data = Inr (JsonObject kvs) \<and>
          filter (\<lambda>kv. equalFold (fst kv) ''version'') kvs = [(k, raw)] \<and>
          DataVersion_UnmarshalJSON E 0 raw = (v, None) \<longrightarrow>
            (\<exists>r. fst (get2 E s endpoint) = Inr r \<and> consensusVersion r = v)) \<and>
         (json_scan E data = Inr (JsonObject kvs) \<and>
          filter (\<lambda>kv. equalFold (fst kv) ''version'') kvs = [(k, raw)] \<and>
          DataVersion_UnmarshalJSON E 0 raw = (v, Some err) \<longrightarrow>
            fst (get2 E s endpoint) =
              Inl (errors_Wrap (errors_Wrap err ''no consensus version header and failed to parse response'')
                     ''failed to parse consensus version'')) \<and>
         (json_scan E data = Inr (JsonObject kvs) \<and>
          filter (\<lambda>kv. equalFold (fst kv) ''version'') kvs = [] \<longrightarrow>
            (\<exists>r. fst (get2 E s endpoint) = Inr r \<and> consensusVersion r = 0)) \<and>
         (json_scan E data = Inl jerr \<longrightarrow>
            fst (get2 E s endpoint) =
              Inl (errors_Wrap (errors_Wrap jerr ''no consensus version header and failed to parse response'')
                     ''failed to parse consensus version''))"
proof (intro conjI impI)
  assume a: "json_scan E data = Inr (JsonObject kvs) \<and>
          filter (\<lambda>kv. equalFold (fst kv) ''version'') kvs = [(k, raw)] \<and>
          DataVersion_UnmarshalJSON E 0 raw = (v, None)"
  then have "json_Unmarshal E data \<lparr>Version = 0\<rparr> = (\<lparr>Version = v\<rparr>, None)"
    by (simp add: json_Unmarshal_def decode_members_single)
  then show "\<exists>r. fst (get2 E s endpoint) = Inr r \<and> consensusVersion r = v"
    using assms(6) by (simp add: get2_2xx_no_version_header [OF assms(1-5)] Let_def)
next
  assume a: "json_scan E data = Inr (JsonObject kvs) \<and>
          filter (\<lambda>kv. equalFold (fst kv) ''version'') kvs = [(k, raw)] \<and>
          DataVersion_UnmarshalJSON E 0 raw = (v, Some err)"
  then have "json_Unmarshal E data \<lparr>Version = 0\<rparr> = (\<lparr>Version = v\<rparr>, Some err)"
    by (simp add: json_Unmarshal_def decode_members_single)
  then show "fst (get2 E s endpoint) =
              Inl (errors_Wrap (errors_Wrap err ''no consensus version header and failed to parse response'')
                     ''failed to parse consensus version'')"
    using assms(6) by (simp add: get2_2xx_no_version_header [OF assms(1-5)] Let_def)
next
  assume a: "json_scan E data = Inr (JsonObject kvs) \<and>
          filter (\<lambda>kv. equalFold (fst kv) ''version'') kvs = []"
  then have "json_Unmarshal E data \<lparr>Version = 0\<rparr> = (\<lparr>Version = 0\<rparr>, None)"
    by (simp add: json_Unmarshal_def decode_members_none)
  then show "\<exists>r. fst (get2 E s endpoint) = Inr r \<and> consensusVersion r = 0"
    using assms(6) by (simp add: get2_2xx_no_version_header [OF assms(1-5)] Let_def)
next
  assume a: "json_scan E data = Inl jerr"
  then have "json_Unmarshal E data \<lparr>Version = 0\<rparr> = (\<lparr>Version = 0\<rparr>, Some jerr)"
    by (simp add: json_Unmarshal_def)
  then show "fst (get2 E s endpoint) =
              Inl (errors_Wrap (errors_Wrap jerr ''no consensus version header and failed to parse response'')
                     ''failed to parse consensus version'')"
    using assms(6) by (simp add: get2_2xx_no_version_header [OF assms(1-5)] Let_def)
qed

theorem get2_version_from_JSON_body_witness:
  "statusFamily 200 = 2 \<and>
   json_scan sample_env body_versioned = Inr (JsonObject [(''version'', quoted ''deneb''), (''data'', ''{}'')]) \<and>
   DataVersion_UnmarshalJSON sample_env 0 (quoted ''deneb'') = (5, None) \<and>
   (\<exists>r. fst (get2 sample_env
               (sample_service (sample_response 200 [(''Content-Type'', [''application/json''])] body_versioned) 1)
               ''/eth/v2/beacon/blocks/head'') = Inr r \<and> consensusVersion r = 5) \<and>
   json_scan sample_env body_unknown_version = Inr (JsonObject [(''version'', quoted ''future'')]) \<and>
   DataVersion_UnmarshalJSON sample_env 0 (quoted ''future'') = (0, Some (errors_New ''unrecognised data version'')) \<and>
   fst (get2 sample_env
          (sample_service (sample_response 200 [(''Content-Type'', [''application/json''])] body_unknown_version) 1)
          ''/eth/v2/beacon/blocks/head'')
     = Inl (errors_Wrap (errors_Wrap (errors_New ''unrecognised data version'')
                           ''no consensus version header and failed to parse response'')
              ''failed to parse consensus version'') \<and>
   json_scan sample_env body_unversioned = Inr (JsonObject [(''data'', ''{}'')]) \<and>
   (\<exists>r. fst (get2 sample_env
               (sample_service (sample_response 200 [(''Content-Type'', [''application/json''])] body_unversioned) 1)
               ''/eth/v1/beacon/genesis'') = Inr r \<and> consensusVersion r = 0) \<and>
   json_scan sample_env ''<html>'' = Inl (External ''invalid character'') \<and>
   fst (get2 sample_env
          (sample_service (sample_response 200 [(''Content-Type'', [''application/json''])] ''<html>'') 1)
          ''/eth/v1/beacon/genesis'')
     = Inl (errors_Wrap (errors_Wrap (External ''invalid character'')
                           ''no consensus version header and failed to parse response'')
              ''failed to parse consensus version'')"
proof -
  have sf: "statusFamily 200 = 2" by (simp add: statusFamily_def go_div_def)
  have ct: "contentType (fst (get2_contentType sample_env s res
              (sample_response 200 [(''Content-Type'', [''application/json''])] b))) = ContentTypeJSON sample_env"
    for s res b by (rule sample_get2_contentType_JSON) simp
  have j1: "json_scan sample_env body_versioned = Inr (JsonObject [(''version'', quoted ''deneb''), (''data'', ''{}'')])"
    by (simp add: sample_defs)
  have j2: "json_scan sample_env body_unknown_version = Inr (JsonObject [(''version'', quoted ''future'')])"
    by (simp add: sample_defs)
  have j3: "json_scan sample_env body_unversioned = Inr (JsonObject [(''data'', ''{}'')])"
    by (simp add: sample_defs)
  have j4: "json_scan sample_env ''<html>'' = Inl (External ''invalid character'')"
    by (simp add: sample_defs)
  have u1: "DataVersion_UnmarshalJSON sample_env 0 (quoted ''deneb'') = (5, None)"
    by (simp add: sample_env_sel sample_UnmarshalJSON_def quoted_def)
  have u2: "DataVersion_UnmarshalJSON sample_env 0 (quoted ''future'')
              = (0, Some (errors_New ''unrecognised data version''))"
    by (simp add: sample_env_sel sample_UnmarshalJSON_def quoted_def)
  have f1: "filter (\<lambda>kv. equalFold (fst kv) ''version'') [(''version'', quoted ''deneb''), (''data'', ''{}'')]
              = [(''version'', quoted ''deneb'')]"
    by (simp add: equalFold_def ascii_lower_def)
  have f2: "filter (\<lambda>kv. equalFold (fst kv) ''version'') [(''version'', quoted ''future'')]
              = [(''version'', quoted ''future'')]"
    by (simp add: equalFold_def ascii_lower_def)
  have f3: "filter (\<lambda>kv. equalFold (fst kv) ''version'') [(''data'', ''{}'')] = []"
    by (simp add: equalFold_def ascii_lower_def)
  have g1: "\<exists>r. fst (get2 sample_env
               (sample_service (sample_response 200 [(''Content-Type'', [''application/json''])] body_versioned) 1)
               ''/eth/v2/beacon/blocks/head'') = Inr r \<and> consensusVersion r = 5"
    using get2_version_from_JSON_body [where E = sample_env and data = body_versioned
          and resp = "sample_response 200 [(''Content-Type'', [''application/json''])] body_versioned"
          and kvs = "[(''version'', quoted ''deneb''), (''data'', ''{}'')]" and k = "''version''"
          and raw = "quoted ''deneb''" and v = 5, OF sample_get2_exchange _ _ _ _ ct]
      sf j1 u1 f1
    by (simp add: sample_response_sel)
  have g2: "fst (get2 sample_env
          (sample_service (sample_response 200 [(''Content-Type'', [''application/json''])] body_unknown_version) 1)
          ''/eth/v2/beacon/blocks/head'')
     = Inl (errors_Wrap (errors_Wrap (errors_New ''unrecognised data version'')
                           ''no consensus version header and failed to parse response'')
              ''failed to parse consensus version'')"
    using get2_version_from_JSON_body [where E = sample_env and data = body_unknown_version
          and resp = "sample_response 200 [(''Content-Type'', [''application/json''])] body_unknown_version"
          and kvs = "[(''version'', quoted ''future'')]" and k = "''version''"
          and raw = "quoted ''future''" and v = 0 and err = "errors_New ''unrecognised data version''",
          OF sample_get2_exchange _ _ _ _ ct]
      sf j2 u2 f2
    by (simp add: sample_response_sel)
  have g3: "\<exists>r. fst (get2 sample_env
               (sample_service (sample_response 200 [(''Content-Type'', [''application/json''])] body_unversioned) 1)
               ''/eth/v1/beacon/genesis'') = Inr r \<and> consensusVersion r = 0"
    using get2_version_from_JSON_body [where E = sample_env and data = body_unversioned
          and resp = "sample_response 200 [(''Content-Type'', [''application/json''])] body_unversioned"
          and kvs = "[(''data'', ''{}'')]", OF sample_get2_exchange _ _ _ _ ct]
      sf j3 f3
    by (simp add: sample_response_sel)
  have g4: "fst (get2 sample_env
          (sample_service (sample_response 200 [(''Content-Type'', [''application/json''])] ''<html>'') 1)
          ''/eth/v1/beacon/genesis'')
     = Inl (errors_Wrap (errors_Wrap (External ''invalid character'')
                           ''no consensus version header and failed to parse response'')
              ''failed to parse consensus version'')"
    using get2_version_from_JSON_body [where E = sample_env and data = "''<html>''"
          and resp = "sample_response 200 [(''Content-Type'', [''application/json''])] ''<html>''"
          and jerr = "External ''invalid character''", OF sample_get2_exchange _ _ _ _ ct]
      sf j4
    by (simp add: sample_response_sel)
  from sf j1 u1 g1 j2 u2 g2 j3 g3 j4 g4 show ?thesis by blast
qed

text \<open>
  Against claim C3 as stated ("no version field: resolution fails with a decode
  error"): the body \<open>{"data":{}}\<close> is a JSON object without a \<open>version\<close> member;
  with content type JSON and no version header \<open>get2\<close> returns the envelope, its
  version the zero value, and no error.
\<close>

theorem get2_missing_version_field_counterexample:
  "json_scan sample_env body_unversioned = Inr (JsonObject [(''data'', ''{}'')]) \<and>
   fst (get2 sample_env
          (sample_service (sample_response 200 [(''Content-Type'', [''application/json''])] body_unversioned) 1)
          ''/eth/v1/beacon/genesis'')
     = Inr \<lparr>statusCode = 200, contentType = 2, consensusVersion = 0, body = body_unversioned\<rparr>"
  by (simp add: transport_defs sample_defs)



section \<open>Transport layer: binary responses need the version header\<close>

text \<open>
  Claim C4. For a response with a status in 200..299 (other than 204, which is
  returned before any resolution) whose body was read: when the resolved content type
  is not JSON and the response has no \<open>Eth-Consensus-Version\<close> header, \<open>get2\<close>
  returns the error "no consensus version header", wrapped as "failed to parse
  consensus version", and no envelope.
\<close>

theorem get2_binary_without_version_header_fails:
  assumes "fst (get2_exchange E s endpoint) = Inr resp"
    and "resp_StatusCode resp \<noteq> 204" and "statusFamily (resp_StatusCode resp) = 2"
    and "io_ReadAll (resp_Body resp) = Inr data"
    and "resp_Header resp ''Eth-Consensus-Version'' = None"
    and "contentType (fst (get2_contentType E s ((new_httpResponse (resp_StatusCode resp))\<lparr>body := data\<rparr>) resp))
           \<noteq> ContentTypeJSON E"
  shows "fst (get2 E s endpoint) =
           Inl (errors_Wrap (errors_New ''no consensus version header'') ''failed to parse consensus version'')"
  using assms(6) by (simp add: get2_2xx_no_version_header [OF assms(1-5)] Let_def)

theorem get2_binary_without_version_header_fails_witness:
  "statusFamily 200 = 2 \<and>
   resp_Header (sample_response 200 [(''Content-Type'', [''application/octet-stream''])] ''ssz'')
      ''Eth-Consensus-Version'' = None \<and>
   contentType (fst (get2_contentType sample_env
                       (sample_service (sample_response 200 [(''Content-Type'', [''application/octet-stream''])] ''ssz'') 1)
                       ((new_httpResponse 200)\<lparr>body := ''ssz''\<rparr>)
                       (sample_response 200 [(''Content-Type'', [''application/octet-stream''])] ''ssz'')))
     \<noteq> ContentTypeJSON sample_env \<and>
   fst (get2 sample_env
          (sample_service (sample_response 200 [(''Content-Type'', [''application/octet-stream''])] ''ssz'') 1)
          ''/eth/v2/debug/beacon/states/head'')
     = Inl (errors_Wrap (errors_New ''no consensus version header'') ''failed to parse consensus version'')"
proof -
  let ?R = "sample_response 200 [(''Content-Type'', [''application/octet-stream''])] ''ssz''"
  have sf: "statusFamily 200 = 2" by (simp add: statusFamily_def go_div_def)
  have h: "resp_Header ?R ''Eth-Consensus-Version'' = None" by (simp add: sample_response_sel)
  have ct: "contentType (fst (get2_contentType sample_env (sample_service ?R 1)
                                ((new_httpResponse 200)\<lparr>body := ''ssz''\<rparr>) ?R)) \<noteq> ContentTypeJSON sample_env"
    by (simp add: sample_get2_contentType_SSZ sample_env_sel)
  have "fst (get2 sample_env (sample_service ?R 1) ''/eth/v2/debug/beacon/states/head'')
     = Inl (errors_Wrap (errors_New ''no consensus version header'') ''failed to parse consensus version'')"
    using get2_binary_without_version_header_fails [where E = sample_env and resp = ?R and data = "''ssz''"
        and s = "sample_service ?R 1", OF sample_get2_exchange] sf h ct
    by (simp add: sample_response_sel)
  with sf h ct show ?thesis by blast
qed

section \<open>Transport layer: the version header wins\<close>

lemma Header_json_scan:
  "Header_Set (E\<lparr>json_scan := f\<rparr>) = Header_Set E"
  "Header_Add (E\<lparr>json_scan := f\<rparr>) = Header_Add E"
  "addExtraHeaders (E\<lparr>json_scan := f\<rparr>) = addExtraHeaders E"
  by (simp_all add: fun_eq_iff Header_Set_def Header_Add_def addExtraHeaders_def)

lemma get2_exchange_json_scan: "get2_exchange (E\<lparr>json_scan := f\<rparr>) s endpoint = get2_exchange E s endpoint"
  by (simp add: get2_exchange_def Header_json_scan Let_def split: sum.splits option.splits)

lemma get2_contentType_json_scan:
  "get2_contentType (E\<lparr>json_scan := f\<rparr>) s res resp = get2_contentType E s res resp"
  by (simp add: get2_contentType_def populateContentType_def split: option.splits prod.splits)

lemma get2_2xx_version_header:
  assumes "fst (get2_exchange E s endpoint) = Inr resp"
    and "resp_StatusCode resp \<noteq> 204" and "statusFamily (resp_StatusCode resp) = 2"
    and "io_ReadAll (resp_Body resp) = Inr data"
    and "resp_Header resp ''Eth-Consensus-Version'' = Some vs"
  shows "fst (get2 E s endpoint) =
     (let res2 = fst (get2_contentType E s ((new_httpResponse (resp_StatusCode resp))\<lparr>body := data\<rparr>) resp) in
      if length vs \<noteq> 1
      then Inl (errors_Wrap (fmt_Errorf ''malformed consensus version (%d entries)'' (length vs))
                  ''failed to parse consensus version'')
      else (case DataVersion_UnmarshalJSON E (DataVersionUnknown E) (Sprintf_q E (hd vs)) of
              (v, Some err) \<Rightarrow>
                Inl (errors_Wrap (errors_Wrap err ''failed to parse consensus version'')
                       ''failed to parse consensus version'')
            | (v, None) \<Rightarrow> Inr (res2\<lparr>consensusVersion := v\<rparr>)))"
proof -
  let ?res1 = "(new_httpResponse (resp_StatusCode resp))\<lparr>body := data\<rparr>"
  obtain res2 ob where ct: "get2_contentType E s ?res1 resp = (res2, ob)"
    by (cases "get2_contentType E s ?res1 resp")
  show ?thesis
    using assms(5)
    by (simp add: get2_via_response [OF assms(1)] get2_response_2xx [OF assms(2,3,4)] ct
        populateConsensusVersion_def Let_def split: prod.splits option.splits)
qed

text \<open>
  Claim C5. For a response with a status in 200..299 (other than 204) whose body was
  read and which has the \<open>Eth-Consensus-Version\<close> header: when the header holds one
  value that \<open>DataVersion.UnmarshalJSON\<close> accepts, \<open>get2\<close> returns an envelope
  whose version is the one read from the header; and whatever the header holds, the
  result is the same for every way of reading the body as JSON, so the body is not
  consulted: the body is the source of the version only when the header is absent.
\<close>

theorem get2_version_header_wins:
  assumes "fst (get2_exchange E s endpoint) = Inr resp"
    and "resp_StatusCode resp \<noteq> 204" and "statusFamily (resp_StatusCode resp) = 2"
    and "io_ReadAll (resp_Body resp) = Inr data"
    and "resp_Header resp ''Eth-Consensus-Version'' = Some vs"
  shows "(vs = [h] \<and> DataVersion_UnmarshalJSON E (DataVersionUnknown E) (Sprintf_q E h) = (v, None) \<longrightarrow>
            (\<exists>r. fst (get2 E s endpoint) = Inr r \<and> consensusVersion r = v)) \<and>
         fst (get2 (E\<lparr>json_scan := scan\<rparr>) s endpoint) = fst (get2 E s endpoint)"
proof
  show "vs = [h] \<and> DataVersion_UnmarshalJSON E (DataVersionUnknown E) (Sprintf_q E h) = (v, None) \<longrightarrow>
            (\<exists>r. fst (get2 E s endpoint) = Inr r \<and> consensusVersion r = v)"
    by (auto simp: get2_2xx_version_header [OF assms] Let_def)
next
  have ex: "fst (get2_exchange (E\<lparr>json_scan := scan\<rparr>) s endpoint) = Inr resp"
    using assms(1) by (simp add: get2_exchange_json_scan)
  show "fst (get2 (E\<lparr>json_scan := scan\<rparr>) s endpoint) = fst (get2 E s endpoint)"
    by (simp add: get2_2xx_version_header [OF assms] get2_2xx_version_header [OF ex assms(2-5)]
        get2_contentType_json_scan)
qed

text \<open>The header says \<open>capella\<close>, the JSON body says \<open>deneb\<close>: the envelope says
  \<open>capella\<close> (4), also when the body is scanned by a function that rejects everything.\<close>

theorem get2_version_header_wins_witness:
  "statusFamily 200 = 2 \<and>
   resp_Header (sample_response 200 [(''Content-Type'', [''application/json'']),
                                     (''Eth-Consensus-Version'', [''capella''])] body_versioned)
      ''Eth-Consensus-Version'' = Some [''capella''] \<and>
   DataVersion_UnmarshalJSON sample_env (DataVersionUnknown sample_env) (Sprintf_q sample_env ''capella'')
     = (4, None) \<and>
   (\<exists>r. fst (get2 sample_env
               (sample_service (sample_response 200 [(''Content-Type'', [''application/json'']),
                                                     (''Eth-Consensus-Version'', [''capella''])] body_versioned) 1)
               ''/eth/v2/beacon/blocks/head'') = Inr r \<and> consensusVersion r = 4) \<and>
   fst (get2 (sample_env\<lparr>json_scan := (\<lambda>b. Inl (External ''not consulted''))\<rparr>)
          (sample_service (sample_response 200 [(''Content-Type'', [''application/json'']),
                                                (''Eth-Consensus-Version'', [''capella''])] body_versioned) 1)
          ''/eth/v2/beacon/blocks/head'')
     = fst (get2 sample_env
              (sample_service (sample_response 200 [(''Content-Type'', [''application/json'']),
                                                    (''Eth-Consensus-Version'', [''capella''])] body_versioned) 1)
              ''/eth/v2/beacon/blocks/head'')"
proof -
  let ?R = "sample_response 200 [(''Content-Type'', [''application/json'']),
                                 (''Eth-Consensus-Version'', [''capella''])] body_versioned"
  have sf: "statusFamily 200 = 2" by (simp add: statusFamily_def go_div_def)
  have h: "resp_Header ?R ''Eth-Consensus-Version'' = Some [''capella'']" by (simp add: sample_response_sel)
  have u: "DataVersion_UnmarshalJSON sample_env (DataVersionUnknown sample_env) (Sprintf_q sample_env ''capella'')
             = (4, None)"
    by (simp add: sample_env_sel sample_UnmarshalJSON_def quoted_def)
  note inst = get2_version_header_wins [where E = sample_env and resp = ?R and data = body_versioned
      and s = "sample_service ?R 1" and endpoint = "''/eth/v2/beacon/blocks/head''"
      and vs = "[''capella'']" and h = "''capella''" and v = 4
      and scan = "\<lambda>b. Inl (External ''not consulted'')", OF sample_get2_exchange _ _ _ h]
  have "(\<exists>r. fst (get2 sample_env (sample_service ?R 1) ''/eth/v2/beacon/blocks/head'') = Inr r \<and>
             consensusVersion r = 4) \<and>
        fst (get2 (sample_env\<lparr>json_scan := (\<lambda>b. Inl (External ''not consulted''))\<rparr>) (sample_service ?R 1)
               ''/eth/v2/beacon/blocks/head'')
          = fst (get2 sample_env (sample_service ?R 1) ''/eth/v2/beacon/blocks/head'')"
    using inst sf u by (simp add: sample_response_sel)
  with sf h u show ?thesis by blast
qed

section \<open>Transport layer: post\<close>

lemma post_via_response:
  assumes "post_body s body0 = Inr (body1, ob)" and "post_exchange E s endpoint body1 = Inr resp"
  shows "fst (post E s endpoint body0) = fst (post_response s endpoint resp)"
  using assms by (simp add: post_def split: prod.splits)

text \<open>
  Claim C6. Let \<open>post\<close> have sent its request and received the response \<open>resp\<close>
  with a status outside 200..299, 404 included. Then \<open>post\<close> returns an error, never
  a result; and with the response body as read, \<open>data\<close>, the error is the Call Error
  with method POST, the endpoint, the status code and \<open>data\<close>.
\<close>

theorem post_non_2xx_is_Call_Error:
  assumes "post_body s body0 = Inr (body1, ob)"
    and "post_exchange E s endpoint body1 = Inr resp"
    and "statusFamily (resp_StatusCode resp) \<noteq> 2"
  shows "(\<exists>err. fst (post E s endpoint body0) = Inl err) \<and>
         (io_ReadAll (resp_Body resp) = Inr data \<longrightarrow>
            fst (post E s endpoint body0) =
              Inl (CallError \<lparr>Method = ''POST'', Endpoint = endpoint,
                               StatusCode = resp_StatusCode resp, Data = data\<rparr>))"
  using assms(3)
  by (cases "io_ReadAll (resp_Body resp)")
     (simp_all add: post_via_response [OF assms(1,2)] post_response_def MethodPost_def)

theorem post_non_2xx_is_Call_Error_witness:
  "post_body (sample_service (sample_response 404 [] ''not found'') 1) (Reader ''[]'' None) = Inr (Reader ''[]'' None, []) \<and>
   statusFamily 404 \<noteq> 2 \<and>
   fst (post sample_env (sample_service (sample_response 404 [] ''not found'') 1)
          ''/eth/v1/beacon/pool/attestations'' (Reader ''[]'' None))
     = Inl (CallError \<lparr>Method = ''POST'', Endpoint = ''/eth/v1/beacon/pool/attestations'',
                        StatusCode = 404, Data = ''not found''\<rparr>) \<and>
   statusFamily 500 \<noteq> 2 \<and>
   fst (post sample_env (sample_service (sample_response 500 [] ''boom'') 1)
          ''/eth/v1/beacon/pool/attestations'' (Reader ''[]'' None))
     = Inl (CallError \<lparr>Method = ''POST'', Endpoint = ''/eth/v1/beacon/pool/attestations'',
                        StatusCode = 500, Data = ''boom''\<rparr>)"
proof -
  have pb: "post_body (sample_service R 1) (Reader ''[]'' None) = Inr (Reader ''[]'' None, [])" for R
    by (simp add: post_body_def Enabled_def TraceLevel_def sample_service_def)
  have sf: "statusFamily 404 \<noteq> 2" "statusFamily 500 \<noteq> 2" by (simp_all add: statusFamily_def go_div_def)
  have g1: "fst (post sample_env (sample_service (sample_response 404 [] ''not found'') 1)
          ''/eth/v1/beacon/pool/attestations'' (Reader ''[]'' None))
     = Inl (CallError \<lparr>Method = ''POST'', Endpoint = ''/eth/v1/beacon/pool/attestations'',
                        StatusCode = 404, Data = ''not found''\<rparr>)"
    using post_non_2xx_is_Call_Error [where resp = "sample_response 404 [] ''not found''"
        and data = "''not found''" and s = "sample_service (sample_response 404 [] ''not found'') 1"
        and E = sample_env, OF pb sample_post_exchange] sf
    by (simp add: sample_response_sel)
  have g2: "fst (post sample_env (sample_service (sample_response 500 [] ''boom'') 1)
          ''/eth/v1/beacon/pool/attestations'' (Reader ''[]'' None))
     = Inl (CallError \<lparr>Method = ''POST'', Endpoint = ''/eth/v1/beacon/pool/attestations'',
                        StatusCode = 500, Data = ''boom''\<rparr>)"
    using post_non_2xx_is_Call_Error [where resp = "sample_response 500 [] ''boom''"
        and data = "''boom''" and s = "sample_service (sample_response 500 [] ''boom'') 1"
        and E = sample_env, OF pb sample_post_exchange] sf
    by (simp add: sample_response_sel)
  from pb sf g1 g2 show ?thesis by blast
qed



section \<open>Orchestrator: a state that is not available\<close>

text \<open>
  Claim C8. When the dispatch (\<open>doCall\<close>) reports that the state is not available,
  by a nil result or by a nil state pointer, with no error, \<open>BeaconState\<close> returns nil
  and no error. And \<open>BeaconState\<close> returns an error only when the dispatch returned
  that error: it makes no error of its own.
\<close>

theorem BeaconState_NotFound_is_not_an_error:
  "(doCall (BeaconState_call provider stateID) None = Return (Inr Nil) \<or>
    doCall (BeaconState_call provider stateID) None = Return (Inr (BeaconStatePtr None)) \<longrightarrow>
      BeaconState doCall provider stateID = Return (Inr None)) \<and>
   (BeaconState doCall provider stateID = Return (Inl err) \<longrightarrow>
      doCall (BeaconState_call provider stateID) None = Return (Inl err))"
  by (auto simp: BeaconState_def split: outcome.splits sum.splits iface.splits)

theorem BeaconState_NotFound_is_not_an_error_witness:
  "sample_doCall [0, 1] (BeaconState_call (\<lambda>client. Some (\<lambda>stateID. Inr None)) ''head'') None
     = Return (Inr (BeaconStatePtr None)) \<and>
   BeaconState (sample_doCall [0, 1]) (\<lambda>client. Some (\<lambda>stateID. Inr None)) ''head'' = Return (Inr None) \<and>
   BeaconState (sample_doCall []) (\<lambda>client. Some (\<lambda>stateID. Inr None)) ''head''
     = Return (Inl (errors_New ''no clients to which to make call'')) \<and>
   sample_doCall [] (BeaconState_call (\<lambda>client. Some (\<lambda>stateID. Inr None)) ''head'') None
     = Return (Inl (errors_New ''no clients to which to make call''))"
proof -
  let ?p = "\<lambda>client::nat. Some (\<lambda>stateID::string. Inr None :: go_error + string option)"
  have d: "sample_doCall [0, 1] (BeaconState_call ?p ''head'') None = Return (Inr (BeaconStatePtr None))"
    by (simp add: sample_doCall_def BeaconState_call_def)
  have e: "BeaconState (sample_doCall []) ?p ''head'' = Return (Inl (errors_New ''no clients to which to make call''))"
    by (simp add: sample_doCall_def BeaconState_def)
  have g1: "BeaconState (sample_doCall [0, 1]) ?p ''head'' = Return (Inr None)"
    using BeaconState_NotFound_is_not_an_error [where doCall = "sample_doCall [0, 1]" and provider = ?p
        and stateID = "''head''" and err = "errors_New ''no clients to which to make call''", THEN conjunct1] d
    by simp
  have g2: "sample_doCall [] (BeaconState_call ?p ''head'') None
      = Return (Inl (errors_New ''no clients to which to make call''))"
    using BeaconState_NotFound_is_not_an_error [where doCall = "sample_doCall []" and provider = ?p
        and stateID = "''head''" and err = "errors_New ''no clients to which to make call''", THEN conjunct2] e
    by simp
  show ?thesis by (intro conjI) (rule d g1 e g2)+
qed


section \<open>Transport layer: the log level and the result\<close>

lemma get_exchange_log_level:
  "fst (get_exchange E (s\<lparr>log_level := l\<rparr>) endpoint) = fst (get_exchange E s endpoint)"
  by (simp add: get_exchange_def addExtraHeaders_def Let_def split: sum.splits option.splits)

lemma get_response_log_level:
  "fst (get_response (s\<lparr>log_level := l\<rparr>) endpoint resp) = fst (get_response s endpoint resp)"
  by (simp add: get_response_def split: sum.splits)

lemma get_log_level: "fst (get E (s\<lparr>log_level := l\<rparr>) endpoint) = fst (get E s endpoint)"
proof -
  have "fst (get E s' endpoint) =
      (case fst (get_exchange E s' endpoint) of Inl err \<Rightarrow> Inl err
       | Inr resp \<Rightarrow> fst (get_response s' endpoint resp))" for s'
    by (simp add: get_def split: prod.splits sum.splits)
  then show ?thesis
    by (simp add: get_exchange_log_level get_response_log_level cong: sum.case_cong)
qed

lemma get2_exchange_log_level:
  "fst (get2_exchange E (s\<lparr>log_level := l\<rparr>) endpoint) = fst (get2_exchange E s endpoint)"
  by (simp add: get2_exchange_def addExtraHeaders_def Let_def split: sum.splits option.splits)

lemma get2_contentType_log_level:
  "fst (get2_contentType E (s\<lparr>log_level := l\<rparr>) res resp) = fst (get2_contentType E s res resp)"
  by (simp add: get2_contentType_def split: prod.splits option.splits)

lemma get2_response_log_level:
  "fst (get2_response E (s\<lparr>log_level := l\<rparr>) endpoint resp) = fst (get2_response E s endpoint resp)"
proof -
  have "fst (get2_response E s' endpoint resp) =
     (if resp_StatusCode resp = StatusNotFound then Inr (new_httpResponse (resp_StatusCode resp))
      else if resp_StatusCode resp = StatusNoContent then Inr (new_httpResponse (resp_StatusCode resp))
      else (case io_ReadAll (resp_Body resp) of
              Inl err \<Rightarrow> Inl (errors_Wrap err ''failed to read body'')
            | Inr data \<Rightarrow>
                if statusFamily (resp_StatusCode resp) \<noteq> 2
                then Inl (CallError \<lparr>Method = MethodGet, Endpoint = endpoint,
                                      StatusCode = resp_StatusCode resp, Data = data\<rparr>)
                else (case populateConsensusVersion E
                             (fst (get2_contentType E s' ((new_httpResponse (resp_StatusCode resp))\<lparr>body := data\<rparr>) resp))
                             resp of
                        (r, Some err) \<Rightarrow> Inl (errors_Wrap err ''failed to parse consensus version'')
                      | (r, None) \<Rightarrow> Inr r)))" for s'
    by (simp add: get2_response_def Let_def split: prod.splits sum.splits option.splits)
  then show ?thesis by (simp add: get2_contentType_log_level cong: sum.case_cong if_cong)
qed

lemma get2_log_level: "fst (get2 E (s\<lparr>log_level := l\<rparr>) endpoint) = fst (get2 E s endpoint)"
proof -
  have "fst (get2 E s' endpoint) =
      (case fst (get2_exchange E s' endpoint) of Inl err \<Rightarrow> Inl err
       | Inr resp \<Rightarrow> fst (get2_response E s' endpoint resp))" for s'
    by (simp add: get2_def split: prod.splits sum.splits)
  then show ?thesis
    by (simp add: get2_exchange_log_level get2_response_log_level cong: sum.case_cong)
qed

lemma post_exchange_log_level:
  "post_exchange E (s\<lparr>log_level := l\<rparr>) endpoint b = post_exchange E s endpoint b"
  by (simp add: post_exchange_def addExtraHeaders_def Let_def split: sum.splits option.splits)

lemma post_response_log_level:
  "fst (post_response (s\<lparr>log_level := l\<rparr>) endpoint resp) = fst (post_response s endpoint resp)"
  by (simp add: post_response_def split: sum.splits)

text \<open>A request body that can be read to its end reaches the client unchanged, at
  every log level.\<close>

lemma post_body_readable:
  "io_ReadAll body0 = Inr d \<Longrightarrow> map_sum id fst (post_body s body0) = Inr body0"
  by (cases body0 rule: io_ReadAll.cases) (auto simp: post_body_def bytes_NewReader_def)

lemma post_readable:
  assumes "io_ReadAll body0 = Inr d"
  shows "fst (post E s endpoint body0) =
     (case post_exchange E s endpoint body0 of Inl err \<Rightarrow> Inl err
      | Inr resp \<Rightarrow> fst (post_response s endpoint resp))"
proof -
  obtain ob where "post_body s body0 = Inr (body0, ob)"
    using post_body_readable [OF assms, of s] by (cases "post_body s body0") auto
  then show ?thesis by (simp add: post_def split: sum.splits prod.splits)
qed

text \<open>
  Claim C9, as the code has it. The result of \<open>get\<close> and of \<open>get2\<close> (the value
  or the error, without what is emitted) is the same at every level of the logger. So
  is the result of \<open>post\<close> whenever the request body can be read to its end. (When
  it cannot, \<open>post\<close> with the trace level enabled stops before the request is sent.)
\<close>

theorem log_level_does_not_change_result:
  "fst (get E (s\<lparr>log_level := l\<rparr>) endpoint) = fst (get E (s\<lparr>log_level := l'\<rparr>) endpoint) \<and>
   fst (get2 E (s\<lparr>log_level := l\<rparr>) endpoint) = fst (get2 E (s\<lparr>log_level := l'\<rparr>) endpoint) \<and>
   (io_ReadAll body0 = Inr d \<longrightarrow>
      fst (post E (s\<lparr>log_level := l\<rparr>) endpoint body0) = fst (post E (s\<lparr>log_level := l'\<rparr>) endpoint body0))"
  by (simp add: get_log_level get2_log_level post_readable post_exchange_log_level post_response_log_level
      cong: sum.case_cong)

theorem log_level_does_not_change_result_witness:
  "io_ReadAll (Reader ''[]'' None) = Inr ''[]'' \<and>
   fst (get sample_env ((sample_service (sample_response 200 [] ''{}'') 0)\<lparr>log_level := -1\<rparr>) ''/eth/v1/x'')
     = fst (get sample_env ((sample_service (sample_response 200 [] ''{}'') 0)\<lparr>log_level := 5\<rparr>) ''/eth/v1/x'') \<and>
   fst (get2 sample_env ((sample_service (sample_response 200 [] ''{}'') 0)\<lparr>log_level := -1\<rparr>) ''/eth/v1/x'')
     = fst (get2 sample_env ((sample_service (sample_response 200 [] ''{}'') 0)\<lparr>log_level := 5\<rparr>) ''/eth/v1/x'') \<and>
   fst (post sample_env ((sample_service (sample_response 200 [] ''{}'') 0)\<lparr>log_level := -1\<rparr>) ''/eth/v1/x''
          (Reader ''[]'' None))
     = fst (post sample_env ((sample_service (sample_response 200 [] ''{}'') 0)\<lparr>log_level := 5\<rparr>) ''/eth/v1/x''
              (Reader ''[]'' None))"
  using log_level_does_not_change_result [where E = sample_env
      and s = "sample_service (sample_response 200 [] ''{}'') 0" and l = "-1" and l' = 5
      and endpoint = "''/eth/v1/x''" and ?body0.0 = "Reader ''[]'' None" and d = "''[]''"]
  by simp

text \<open>
  Against claim C9 as stated: a request body whose read fails. With the trace level
  enabled (level -1) \<open>post\<close> returns "failed to read request body" and sends
  nothing; at level 0 the request is sent and the client's error comes back wrapped as
  "failed to call POST endpoint".
\<close>

theorem post_trace_logging_counterexample:
  "fst (post sample_env ((sample_service (sample_response 200 [] ''{}'') 0)\<lparr>log_level := -1\<rparr>)
          ''/eth/v1/beacon/pool/attestations'' (Reader ''[]'' (Some (External ''unexpected EOF''))))
     = Inl (errors_New ''failed to read request body'') \<and>
   fst (post sample_env ((sample_service (sample_response 200 [] ''{}'') 0)\<lparr>log_level := 0\<rparr>)
          ''/eth/v1/beacon/pool/attestations'' (Reader ''[]'' (Some (External ''unexpected EOF''))))
     = Inl (errors_Wrap (External ''unexpected EOF'') ''failed to call POST endpoint'')"
  by (simp add: transport_defs sample_defs)

section \<open>BlockContents: no double quote in the YAML\<close>

lemma set_bytes_ReplaceAll1:
  "old \<notin> set new \<Longrightarrow> old \<notin> set (bytes_ReplaceAll1 s old new)"
  by (induction s) (auto simp: bytes_ReplaceAll1_def)

lemma bytes_ReplaceAll1_single:
  "bytes_ReplaceAll1 s old [new] = map (\<lambda>c. if c = old then new else c) s"
  by (induction s) (auto simp: bytes_ReplaceAll1_def)

text \<open>
  Claim C10. When \<open>MarshalYAML\<close> succeeds, its result holds no double quote (0x22):
  it is the output of the YAML encoder with every double quote replaced by a single
  quote (0x27).
\<close>

theorem MarshalYAML_no_double_quote:
  "MarshalYAML yaml_Marshal b = Inr out \<Longrightarrow>
     CHR 0x22 \<notin> set out \<and>
     (\<exists>yamlBytes. yaml_Marshal \<lparr>yaml_Block = Block b, yaml_BlobSidecars = BlobSidecars b\<rparr> = Inr yamlBytes \<and>
        out = map (\<lambda>c. if c = CHR 0x22 then CHR 0x27 else c) yamlBytes)"
  by (auto simp: MarshalYAML_def set_bytes_ReplaceAll1 bytes_ReplaceAll1_single split: sum.splits)

theorem MarshalYAML_no_double_quote_witness:
  "MarshalYAML sample_yaml_Marshal \<lparr>Block = None, BlobSidecars = []\<rparr>
     = Inr (''{block: '' @ [CHR 0x27] @ ''0x01'' @ [CHR 0x27] @ '', blob_sidecars: []}'') \<and>
   CHR 0x22 \<notin> set (''{block: '' @ [CHR 0x27] @ ''0x01'' @ [CHR 0x27] @ '', blob_sidecars: []}'')"
proof -
  have m: "MarshalYAML sample_yaml_Marshal \<lparr>Block = None, BlobSidecars = []\<rparr>
     = Inr (''{block: '' @ [CHR 0x27] @ ''0x01'' @ [CHR 0x27] @ '', blob_sidecars: []}'')"
    by (simp add: MarshalYAML_def sample_yaml_Marshal_def quoted_def bytes_ReplaceAll1_def)
  from MarshalYAML_no_double_quote [OF m] m show ?thesis by blast
qed

end
